theory Spec2Isabelle
  imports Complex_Main
begin

section \<open>The AIS collector (\<^verbatim>\<open>ais_collector.py\<close>)\<close>

text \<open>
  A shallow embedding of the receive loop of \<^verbatim>\<open>connect_ais_stream\<close> and of the helpers
  it calls. Python's unbounded integers are \<open>int\<close>, floats (coordinates, speeds, the
  clock of \<^verbatim>\<open>time.time()\<close>) are read as \<open>real\<close>, strings are \<open>string\<close> whose characters
  are the code points below 256, tuples are tuples, a dictionary is a map, and an
  exception is a value of \<open>py_exception\<close> on the left of a sum.
\<close>

subsection \<open>Exceptions\<close>

datatype py_exception =
    ValueError
  | AttributeError  \<comment> \<open>\<^verbatim>\<open>None.replace\<close>, when \<^verbatim>\<open>time_utc\<close> is \<^verbatim>\<open>null\<close>\<close>
  | GeometryError  \<comment> \<open>any \<^verbatim>\<open>Exception\<close> raised by \<^verbatim>\<open>Point(...)\<close> or \<^verbatim>\<open>contains\<close>\<close>

datatype db_error =
    OperationalError  \<comment> \<open>\<^verbatim>\<open>psycopg2.OperationalError\<close>\<close>
  | DatabaseError     \<comment> \<open>any other \<^verbatim>\<open>psycopg2.Error\<close>\<close>

subsection \<open>Configuration\<close>

text \<open>
  \<^verbatim>\<open>north_sea_shape.contains(Point(longitude, latitude))\<close> is computed by geopandas and
  shapely, outside the repository: it is taken as a parameter that gives one boolean
  for each polygon of the loaded boundary, or raises.
\<close>

type_synonym geo_shape = "real \<Rightarrow> real \<Rightarrow> py_exception + bool list"

text \<open>
  The module-level settings. \<open>source_config\<close> below holds the values written in the
  source; the functions take the record, so that both positions of the retention
  switch and any batch size can be spoken about.
\<close>

record config =
  SAVE_NO_IMO_VESSELS :: bool
  BATCH_SIZE :: nat
  north_sea_shape :: geo_shape

definition source_config :: "geo_shape \<Rightarrow> config" where
  "source_config shape =
     \<lparr>SAVE_NO_IMO_VESSELS = False, BATCH_SIZE = 100, north_sea_shape = shape\<rparr>"

definition MAX_DB_RETRIES :: nat where
  "MAX_DB_RETRIES = 3"

subsection \<open>GeoFilter: \<^verbatim>\<open>is_point_in_north_sea\<close>\<close>

definition any_py :: "bool list \<Rightarrow> bool" where
  "any_py bs = (True \<in> set bs)"

text \<open>
  The result is a sum so that "never raises" is a statement: \<open>Inl\<close> would be an
  exception leaving the function. The \<^verbatim>\<open>try ... except Exception\<close> turns every
  exception of the geometry test into \<^verbatim>\<open>False\<close>.
\<close>

definition is_point_in_north_sea ::
  "real option \<Rightarrow> real option \<Rightarrow> geo_shape \<Rightarrow> py_exception + bool" where
  "is_point_in_north_sea latitude longitude shape =
     (case latitude of
        None \<Rightarrow> Inr False
      | Some lat \<Rightarrow>
          (case longitude of
             None \<Rightarrow> Inr False
           | Some lon \<Rightarrow>
               (case shape lon lat of
                  Inr inside \<Rightarrow> Inr (any_py inside)
                | Inl e \<Rightarrow> Inr False)))"

subsection \<open>TimestampNormalizer: \<^verbatim>\<open>parse_timestamp\<close>\<close>

text \<open>\<^verbatim>\<open>timestamp_str.replace(" UTC", "")\<close>: every occurrence is removed, left to right.\<close>

function replace_utc :: "string \<Rightarrow> string" where
  "replace_utc s =
     (if s = [] then []
      else if take 4 s = '' UTC'' then replace_utc (drop 4 s)
      else hd s # replace_utc (tl s))"
  by pat_completeness auto
termination
  by (relation "measure length") auto

declare replace_utc.simps [simp del]

text \<open>
  The classes of the regular expression, on code points below 256: \<^verbatim>\<open>\d\<close> is a decimal
  digit, \<^verbatim>\<open>\s\<close> is Python's Unicode white space.
\<close>

definition is_digit :: "char \<Rightarrow> bool" where
  "is_digit c = (48 \<le> (of_char c :: nat) \<and> (of_char c :: nat) \<le> 57)"

definition is_space :: "char \<Rightarrow> bool" where
  "is_space c =
     ((of_char c :: nat) \<in> {9, 10, 11, 12, 13, 28, 29, 30, 31, 32, 133, 160})"

definition all_digits :: "string \<Rightarrow> bool" where
  "all_digits s = list_all is_digit s"

text \<open>The first group: \<^verbatim>\<open>\d{4}-\d{2}-\d{2} \d{2}:\d{2}:\d{2}\<close>, nineteen characters.\<close>

definition date_time_shape :: "string \<Rightarrow> bool" where
  "date_time_shape g =
     (length g = 19
      \<and> all_digits (take 4 g) \<and> g ! 4 = CHR ''-''
      \<and> all_digits (take 2 (drop 5 g)) \<and> g ! 7 = CHR ''-''
      \<and> all_digits (take 2 (drop 8 g)) \<and> g ! 10 = CHR '' ''
      \<and> all_digits (take 2 (drop 11 g)) \<and> g ! 13 = CHR '':''
      \<and> all_digits (take 2 (drop 14 g)) \<and> g ! 16 = CHR '':''
      \<and> all_digits (take 2 (drop 17 g)))"

text \<open>
  \<^verbatim>\<open>re.match(r"^(\d{4}-\d{2}-\d{2} \d{2}:\d{2}:\d{2})\.(\d+)\s(\+\d{4})$", ts)\<close>: the three
  groups, or \<open>None\<close>. \<^verbatim>\<open>\d+\<close> is greedy and what follows it is not a digit, so it takes
  the longest run of digits; \<^verbatim>\<open>$\<close> matches at the end and before a final newline.
\<close>

definition re_match :: "string \<Rightarrow> (string \<times> string \<times> string) option" where
  "re_match ts =
     (let g1 = take 19 ts;
          r1 = drop 19 ts;
          g2 = takeWhile is_digit (drop 1 r1);
          r2 = dropWhile is_digit (drop 1 r1);
          g3 = take 5 (drop 1 r2);
          r3 = drop 5 (drop 1 r2)
      in if date_time_shape g1
            \<and> take 1 r1 = ''.''
            \<and> g2 \<noteq> []
            \<and> list_all is_space (take 1 r2) \<and> length (take 1 r2) = 1
            \<and> length g3 = 5 \<and> take 1 g3 = ''+'' \<and> all_digits (drop 1 g3)
            \<and> (r3 = [] \<or> r3 = [CHR 0x0A])
         then Some (g1, g2, g3) else None)"

record datetime =
  year :: nat
  month :: nat
  day :: nat
  hour :: nat
  minute :: nat
  second :: nat
  microsecond :: nat
  utcoffset :: nat  \<comment> \<open>minutes east of UTC; the pattern admits only \<^verbatim>\<open>+\<close>\<close>

definition digit_val :: "char \<Rightarrow> nat" where
  "digit_val c = of_char c - 48"

definition int_of_digits :: "string \<Rightarrow> nat" where
  "int_of_digits s = foldl (\<lambda>n c. 10 * n + digit_val c) 0 s"

definition is_leap :: "nat \<Rightarrow> bool" where
  "is_leap y = (y mod 4 = 0 \<and> (y mod 400 = 0 \<or> y mod 100 \<noteq> 0))"

definition days_in_month :: "nat \<Rightarrow> nat \<Rightarrow> nat" where
  "days_in_month y m =
     (if m = 2 then (if is_leap y then 29 else 28)
      else if m = 4 \<or> m = 6 \<or> m = 9 \<or> m = 11 then 30 else 31)"

text \<open>
  \<^verbatim>\<open>datetime.datetime.strptime(s, "%Y-%m-%d %H:%M:%S.%f%z")\<close>, from the standard library,
  on the strings that \<open>parse_timestamp\<close> passes to it: nineteen characters of date and
  time, a dot, one to six digits and \<^verbatim>\<open>+HHMM\<close>. On these every field has its full
  width, and the library raises \<^verbatim>\<open>ValueError\<close> exactly when a field is out of range:
  month 1..12, day within the month, hour below 24, minute below 60, second below 60
  (the directive admits 60 and 61, the constructor refuses them), year at least 1,
  offset minutes below 60 and the offset below 24 hours. The fraction is padded with
  zeros on the right. Strings of another form do not reach it from \<open>parse_timestamp\<close>;
  for them the model answers \<^verbatim>\<open>ValueError\<close>.
\<close>

definition strptime :: "string \<Rightarrow> py_exception + datetime" where
  "strptime s =
     (let date_time_part = take 19 s;
          fraction_part = takeWhile is_digit (drop 20 s);
          tz_part = dropWhile is_digit (drop 20 s);
          y = int_of_digits (take 4 date_time_part);
          mo = int_of_digits (take 2 (drop 5 date_time_part));
          d = int_of_digits (take 2 (drop 8 date_time_part));
          h = int_of_digits (take 2 (drop 11 date_time_part));
          mi = int_of_digits (take 2 (drop 14 date_time_part));
          sec = int_of_digits (take 2 (drop 17 date_time_part));
          us = int_of_digits fraction_part * 10 ^ (6 - length fraction_part);
          oh = int_of_digits (take 2 (drop 1 tz_part));
          om = int_of_digits (take 2 (drop 3 tz_part))
      in if date_time_shape date_time_part \<and> take 1 (drop 19 s) = ''.''
            \<and> fraction_part \<noteq> [] \<and> length fraction_part \<le> 6
            \<and> length tz_part = 5 \<and> take 1 tz_part = ''+'' \<and> all_digits (drop 1 tz_part)
            \<and> 1 \<le> y \<and> 1 \<le> mo \<and> mo \<le> 12 \<and> 1 \<le> d \<and> d \<le> days_in_month y mo
            \<and> h < 24 \<and> mi < 60 \<and> sec < 60 \<and> om < 60 \<and> oh < 24
         then Inr \<lparr>year = y, month = mo, day = d, hour = h, minute = mi, second = sec,
                   microsecond = us, utcoffset = 60 * oh + om\<rparr>
         else Inl ValueError)"

text \<open>
  \<^verbatim>\<open>parse_timestamp\<close>: remove the marker, match, cut the fraction to six digits, put the
  parts together again and parse. No match raises \<^verbatim>\<open>ValueError\<close>.
\<close>

definition parse_timestamp :: "string \<Rightarrow> py_exception + datetime" where
  "parse_timestamp timestamp_str =
     (let ts = replace_utc timestamp_str in
      case re_match ts of
        None \<Rightarrow> Inl ValueError
      | Some (date_time_part, g2, tz_part) \<Rightarrow>
          (let fraction_part = take 6 g2;
               new_timestamp_str = date_time_part @ ''.'' @ fraction_part @ tz_part
           in strptime new_timestamp_str))"

text \<open>
  \<^verbatim>\<open>timestamp_ais_dt.strftime("%Y-%m-%d %H:%M:%S.%f")\<close>: the fields as parsed, without
  the offset. The text it prints is in one-to-one correspondence with the seven
  numbers, which stand for it.
\<close>

type_synonym timestamp_ais = "nat \<times> nat \<times> nat \<times> nat \<times> nat \<times> nat \<times> nat"

definition strftime :: "datetime \<Rightarrow> timestamp_ais" where
  "strftime dt =
     (year dt, month dt, day dt, hour dt, minute dt, second dt, microsecond dt)"

subsection \<open>Decoded feed messages\<close>

text \<open>
  A field of a decoded JSON object: the key is missing, or its value is \<^verbatim>\<open>null\<close>, or it
  has a value. \<open>jget\<close> is \<^verbatim>\<open>d.get(k)\<close> and \<open>jget_default\<close> is \<^verbatim>\<open>d.get(k, default)\<close>,
  which gives the default for a missing key only.
\<close>

datatype 'a jfield = Absent | JNull | JVal 'a

definition jget :: "'a jfield \<Rightarrow> 'a option" where
  "jget f = (case f of JVal v \<Rightarrow> Some v | Absent \<Rightarrow> None | JNull \<Rightarrow> None)"

definition jget_default :: "'a jfield \<Rightarrow> 'a \<Rightarrow> 'a option" where
  "jget_default f dflt =
     (case f of JVal v \<Rightarrow> Some v | Absent \<Rightarrow> Some dflt | JNull \<Rightarrow> None)"

record dimension =
  dim_A :: "int jfield"
  dim_B :: "int jfield"
  dim_C :: "int jfield"
  dim_D :: "int jfield"

record ship_static_data =
  ImoNumber :: "int jfield"
  Name :: "string jfield"
  Type :: "int jfield"
  Dimension :: "dimension jfield"
  MaximumStaticDraught :: "real jfield"
  Destination :: "string jfield"

record position_report =
  Sog :: "real jfield"
  Cog :: "real jfield"
  NavigationalStatus :: "int jfield"
  RateOfTurn :: "int jfield"
  TrueHeading :: "int jfield"

record meta_data =
  MMSI :: "int jfield"
  latitude :: "real jfield"
  longitude :: "real jfield"
  time_utc :: "string jfield"

datatype payload =
    ShipStaticData ship_static_data
  | PositionReport position_report
  | OtherMessage  \<comment> \<open>a \<^verbatim>\<open>MessageType\<close> that is neither of the two\<close>

datatype message =
    Untyped  \<comment> \<open>no \<^verbatim>\<open>MessageType\<close> key\<close>
  | Typed meta_data payload

subsection \<open>The persistent store\<close>

text \<open>
  The rows are the tuples the source appends to its batches, column by column. A table
  is the list of its rows in the order they were inserted, which is also the order in
  which a query without \<^verbatim>\<open>ORDER BY\<close> is taken to scan it.
\<close>

type_synonym ships_row =
  "int \<times> int option \<times> string option \<times> int option \<times> int option \<times> int option \<times> real option"

type_synonym static_row =
  "int \<times> int option \<times> string option \<times> int option \<times> int option \<times> int option \<times> real option
   \<times> string option \<times> timestamp_ais \<times> real \<times> real"

type_synonym position_row =
  "int \<times> timestamp_ais \<times> real \<times> real \<times> string option
   \<times> real option \<times> real option \<times> int option \<times> int option \<times> int option"

type_synonym unknown_row =
  "int \<times> int option \<times> string option \<times> int option \<times> int option \<times> int option \<times> real option
   \<times> string option \<times> timestamp_ais \<times> real \<times> real
   \<times> real option \<times> real option \<times> int option \<times> int option \<times> int option"

record database =
  ships_tbl :: "ships_row list"
  ship_static_data_temp_tbl :: "static_row list"
  ship_data_tbl :: "position_row list"
  unknown_ships_tbl :: "unknown_row list"

definition row_imo :: "ships_row \<Rightarrow> int" where
  "row_imo r = fst r"

definition row_mmsi :: "ships_row \<Rightarrow> int option" where
  "row_mmsi r = fst (snd r)"

definition row_attributes ::
  "ships_row \<Rightarrow> string option \<times> int option \<times> int option \<times> int option \<times> real option" where
  "row_attributes r = snd (snd r)"

text \<open>
  \<^verbatim>\<open>INSERT INTO ships ... ON CONFLICT (imo_number) DO UPDATE SET name = EXCLUDED.name,
  ship_type = ..., length = ..., width = ..., max_draught = ...\<close> for one row: the row
  with the same \<^verbatim>\<open>imo_number\<close> keeps its \<^verbatim>\<open>mmsi\<close> and takes the five other columns; with
  no such row the new one is inserted.
\<close>

fun upsert_ship :: "ships_row \<Rightarrow> ships_row list \<Rightarrow> ships_row list" where
  "upsert_ship new [] = [new]"
| "upsert_ship new (old # rows) =
     (if row_imo old = row_imo new
      then (row_imo old, row_mmsi old, row_attributes new) # rows
      else old # upsert_ship new rows)"

text \<open>\<^verbatim>\<open>cursor.executemany\<close> runs the statement once for each row of the batch, in order.\<close>

definition executemany_upsert :: "ships_row list \<Rightarrow> ships_row list \<Rightarrow> ships_row list" where
  "executemany_upsert table batch = foldl (\<lambda>rows new. upsert_ship new rows) table batch"

subsection \<open>The state of the receive loop and its environment\<close>

text \<open>
  The local variables of \<^verbatim>\<open>connect_ais_stream\<close> that the batches and the identity
  mapping depend on. \<open>store\<close> is what is committed on the connection \<^verbatim>\<open>conn\<close>. The
  last two fields are not variables of the source: \<open>imo_queries\<close> counts the
  \<^verbatim>\<open>SELECT\<close> statements that \<^verbatim>\<open>find_imo_by_mmsi\<close> has sent, \<open>flush_attempts\<close> counts the
  entries into the flush block. The per-minute statistics (counters that are only
  logged, the sets of MMSIs seen) have no effect on the rest and are left out.
\<close>

record state =
  store :: database
  mmsi_to_imo :: "int \<rightharpoonup> int"
  ships_batch :: "ships_row list"
  static_data_batch :: "static_row list"
  position_data_batch :: "position_row list"
  unknown_data_batch :: "unknown_row list"
  last_commit_time :: real
  collected_count :: nat
  filtered_count :: nat
  static_data_count :: nat
  position_data_count :: nat
  no_imo_filtered_count :: nat
  imo_queries :: nat
  flush_attempts :: nat

datatype table = Ships | ShipStaticDataTemp | ShipData | UnknownShips

text \<open>
  What the outside world does while one message is handled: the clock read at the
  flush check, whether a statement sent to the store raises, and the store's answer to
  the look-back query for a destination, which depends on the store's own clock.
\<close>

record env =
  current_time :: real
  imo_query_fails :: bool
  destination_query :: "int \<Rightarrow> db_error + string option option"
  write_fault :: "table \<Rightarrow> db_error option"
  commit_fault :: "db_error option"
  conn_closed :: bool

subsection \<open>IdentityResolver\<close>

text \<open>
  \<^verbatim>\<open>find_imo_by_mmsi\<close>: \<^verbatim>\<open>SELECT imo_number FROM ships WHERE mmsi = %s LIMIT 1\<close> and
  \<^verbatim>\<open>fetchone\<close>. The second component is the number of statements sent: none when the
  MMSI is falsy, one otherwise. An exception of the query is caught and gives \<^verbatim>\<open>None\<close>.
\<close>

definition find_imo_by_mmsi :: "env \<Rightarrow> database \<Rightarrow> int \<Rightarrow> int option \<times> nat" where
  "find_imo_by_mmsi e conn mmsi =
     (if mmsi = 0 then (None, 0)
      else if imo_query_fails e then (None, 1)
      else (case filter (\<lambda>r. row_mmsi r = Some mmsi) (ships_tbl conn) of
              [] \<Rightarrow> (None, 1)
            | result # _ \<Rightarrow> (Some (row_imo result), 1)))"

text \<open>
  \<^verbatim>\<open>get_recent_destination\<close>: the most recent destination of the last five hours, as the
  store answers it; \<^verbatim>\<open>None\<close> for a falsy IMO, for no row, and when the query raises.
\<close>

definition get_recent_destination :: "env \<Rightarrow> int \<Rightarrow> string option" where
  "get_recent_destination e imo_number =
     (if imo_number = 0 then None
      else (case destination_query e imo_number of
              Inl err \<Rightarrow> None
            | Inr None \<Rightarrow> None
            | Inr (Some result) \<Rightarrow> result))"

text \<open>
  Lines 660 to 672 of \<^verbatim>\<open>connect_ais_stream\<close>: the in-memory mapping first, the store on
  a miss, and a hit of the store written to the mapping.
\<close>

definition resolve :: "env \<Rightarrow> state \<Rightarrow> int option \<Rightarrow> int option \<times> state" where
  "resolve e s mmsi =
     (case mmsi of
        None \<Rightarrow> (None, s)
      | Some m \<Rightarrow>
          (case mmsi_to_imo s m of
             Some imo_number \<Rightarrow> (Some imo_number, s)
           | None \<Rightarrow>
               (let (found, sent) = find_imo_by_mmsi e (store s) m;
                    s1 = s\<lparr>imo_queries := imo_queries s + sent\<rparr>
                in (case found of
                      None \<Rightarrow> (None, s1)
                    | Some imo_number \<Rightarrow>
                        (Some imo_number,
                         s1\<lparr>mmsi_to_imo := (mmsi_to_imo s1)(m \<mapsto> imo_number)\<rparr>)))))"

subsection \<open>MessageClassifier\<close>

definition empty_dimension :: dimension where
  "empty_dimension = \<lparr>dim_A = Absent, dim_B = Absent, dim_C = Absent, dim_D = Absent\<rparr>"

text \<open>
  Lines 576 to 591: \<^verbatim>\<open>dimension = ship_data.get("Dimension", {})\<close>, and inside
  \<^verbatim>\<open>if dimension:\<close> (a dictionary with at least one key) the two sums, each computed
  only when both of its operands are not \<^verbatim>\<open>None\<close>.
\<close>

definition static_dimensions :: "dimension jfield \<Rightarrow> int option \<times> int option" where
  "static_dimensions f =
     (case jget_default f empty_dimension of
        None \<Rightarrow> (None, None)
      | Some dimension \<Rightarrow>
          if dimension \<noteq> empty_dimension then
            (let a = jget (dim_A dimension);
                 b = jget (dim_B dimension);
                 c = jget (dim_C dimension);
                 d = jget (dim_D dimension)
             in ((case (a, b) of (Some x, Some y) \<Rightarrow> Some (x + y) | _ \<Rightarrow> None),
                 (case (c, d) of (Some x, Some y) \<Rightarrow> Some (x + y) | _ \<Rightarrow> None)))
          else (None, None))"

text \<open>Lines 569 to 644: a \<^verbatim>\<open>ShipStaticData\<close> message that passed the filters.\<close>

definition handle_static ::
  "config \<Rightarrow> state \<Rightarrow> int option \<Rightarrow> real \<Rightarrow> real \<Rightarrow> timestamp_ais \<Rightarrow> ship_static_data \<Rightarrow> state" where
  "handle_static cfg s mmsi lat lon ts ship_data =
     (let raw_imo_number = jget (ImoNumber ship_data);
          name = jget_default (Name ship_data) ''Unknown'';
          ship_type = jget (Type ship_data);
          (length, width) = static_dimensions (Dimension ship_data);
          max_draught = jget (MaximumStaticDraught ship_data);
          destination = jget_default (Destination ship_data) ''Unknown'';
          s1 = (case (raw_imo_number, mmsi) of
                  (Some i, Some m) \<Rightarrow>
                    if i \<noteq> 0 then s\<lparr>mmsi_to_imo := (mmsi_to_imo s)(m \<mapsto> i)\<rparr> else s
                | _ \<Rightarrow> s);
          s2 = (case raw_imo_number of
                  Some imo_number \<Rightarrow>
                    if imo_number \<noteq> 0 then
                      s1\<lparr>ships_batch := ships_batch s1 @
                            [(imo_number, mmsi, name, ship_type, length, width, max_draught)],
                         static_data_batch := static_data_batch s1 @
                            [(imo_number, mmsi, name, ship_type, length, width, max_draught,
                              destination, ts, lat, lon)],
                         static_data_count := static_data_count s1 + 1\<rparr>
                    else if SAVE_NO_IMO_VESSELS cfg then
                      s1\<lparr>unknown_data_batch := unknown_data_batch s1 @
                            [(0, mmsi, name, ship_type, length, width, max_draught,
                              destination, ts, lat, lon, None, None, None, None, None)]\<rparr>
                    else s1\<lparr>no_imo_filtered_count := no_imo_filtered_count s1 + 1\<rparr>
                | None \<Rightarrow>
                    if SAVE_NO_IMO_VESSELS cfg then
                      s1\<lparr>unknown_data_batch := unknown_data_batch s1 @
                            [(- 1, mmsi, name, ship_type, length, width, max_draught,
                              destination, ts, lat, lon, None, None, None, None, None)]\<rparr>
                    else s1\<lparr>no_imo_filtered_count := no_imo_filtered_count s1 + 1\<rparr>)
      in s2\<lparr>collected_count := collected_count s2 + 1\<rparr>)"

text \<open>Lines 646 to 694: a \<^verbatim>\<open>PositionReport\<close> message that passed the filters.\<close>

definition handle_position ::
  "config \<Rightarrow> env \<Rightarrow> state \<Rightarrow> int option \<Rightarrow> real \<Rightarrow> real \<Rightarrow> timestamp_ais \<Rightarrow> position_report
   \<Rightarrow> state" where
  "handle_position cfg e s mmsi lat lon ts position_data =
     (let sog = jget (Sog position_data);
          cog = jget (Cog position_data);
          navigational_status_code = jget (NavigationalStatus position_data);
          rate_of_turn = jget (RateOfTurn position_data);
          true_heading = jget (TrueHeading position_data);
          (found, s1) = resolve e s mmsi;
          s2 = (case found of
                  Some imo_number \<Rightarrow>
                    (let destination = get_recent_destination e imo_number
                     in s1\<lparr>position_data_batch := position_data_batch s1 @
                              [(imo_number, ts, lat, lon, destination, sog, cog,
                                navigational_status_code, rate_of_turn, true_heading)],
                           position_data_count := position_data_count s1 + 1\<rparr>)
                | None \<Rightarrow>
                    if SAVE_NO_IMO_VESSELS cfg then
                      s1\<lparr>unknown_data_batch := unknown_data_batch s1 @
                            [(- 1, mmsi, None, None, None, None, None, None, ts, lat, lon,
                              sog, cog, navigational_status_code, rate_of_turn, true_heading)]\<rparr>
                    else s1\<lparr>no_imo_filtered_count := no_imo_filtered_count s1 + 1\<rparr>)
      in s2\<lparr>collected_count := collected_count s2 + 1\<rparr>)"

text \<open>
  How the body of the loop leaves lines 540 to 694 for one message: by \<^verbatim>\<open>continue\<close>, by
  reaching the flush check of line 696, or by an exception that none of the handlers
  inside the loop catches.
\<close>

datatype outcome =
    Skipped state
  | Handled state
  | Raised py_exception

definition handle_message :: "config \<Rightarrow> env \<Rightarrow> state \<Rightarrow> message \<Rightarrow> outcome" where
  "handle_message cfg e s message =
     (case message of
        Untyped \<Rightarrow> Skipped s
      | Typed metadata body \<Rightarrow>
          (let mmsi = jget (MMSI metadata);
               lat_opt = jget (latitude metadata);
               lon_opt = jget (longitude metadata)
           in case (lat_opt, lon_opt) of
                (Some lat, Some lon) \<Rightarrow>
                  (case is_point_in_north_sea lat_opt lon_opt (north_sea_shape cfg) of
                     Inl exn \<Rightarrow> Raised exn
                   | Inr False \<Rightarrow> Skipped (s\<lparr>filtered_count := filtered_count s + 1\<rparr>)
                   | Inr True \<Rightarrow>
                       (case jget_default (time_utc metadata) [] of
                          None \<Rightarrow> Raised AttributeError
                        | Some timestamp_ais_raw \<Rightarrow>
                            (case parse_timestamp timestamp_ais_raw of
                               Inl exn \<Rightarrow>
                                 if exn = ValueError then Skipped s else Raised exn
                             | Inr timestamp_ais_dt \<Rightarrow>
                                 (let ts = strftime timestamp_ais_dt
                                  in case body of
                                       ShipStaticData ship_data \<Rightarrow>
                                         Handled (handle_static cfg s mmsi lat lon ts ship_data)
                                     | PositionReport position_data \<Rightarrow>
                                         Handled
                                           (handle_position cfg e s mmsi lat lon ts position_data)
                                     | OtherMessage \<Rightarrow> Handled s))))
              | _ \<Rightarrow> Skipped s))"

subsection \<open>BatchAccumulator and PersistenceWriter\<close>

definition pending_count :: "state \<Rightarrow> nat" where
  "pending_count s =
     length (ships_batch s) + length (static_data_batch s)
     + length (position_data_batch s) + length (unknown_data_batch s)"

text \<open>Lines 697 to 699: the condition under which the flush block is entered.\<close>

definition flush_due :: "config \<Rightarrow> env \<Rightarrow> state \<Rightarrow> bool" where
  "flush_due cfg e s =
     (pending_count s \<ge> BATCH_SIZE cfg \<or> current_time e - last_commit_time s \<ge> 10)"

text \<open>
  One statement of the flush block works on the open transaction, the first component,
  and on the local variables. \<open>Inl\<close> is a \<^verbatim>\<open>psycopg2.Error\<close> raised there, with the
  variables as they are at that moment.
\<close>

type_synonym flush_step = "database \<times> state \<Rightarrow> (db_error \<times> state) + (database \<times> state)"

definition and_then ::
  "(db_error \<times> state) + (database \<times> state) \<Rightarrow> flush_step
   \<Rightarrow> (db_error \<times> state) + (database \<times> state)" where
  "and_then r f = (case r of Inl x \<Rightarrow> Inl x | Inr y \<Rightarrow> f y)"

text \<open>The local variables when the flush block is left, after a failure or after the commit.\<close>

definition result_state :: "(db_error \<times> state) + (database \<times> state) \<Rightarrow> state" where
  "result_state r = (case r of Inl (err, s) \<Rightarrow> s | Inr (tx, s) \<Rightarrow> s)"

text \<open>Lines 704 to 719: the upsert of the registry, then \<^verbatim>\<open>ships_batch = []\<close>.\<close>

definition write_ships :: "env \<Rightarrow> flush_step" where
  "write_ships e = (\<lambda>(tx, s).
     if ships_batch s = [] then Inr (tx, s)
     else (case write_fault e Ships of
             Some err \<Rightarrow> Inl (err, s)
           | None \<Rightarrow>
               Inr (tx\<lparr>ships_tbl := executemany_upsert (ships_tbl tx) (ships_batch s)\<rparr>,
                    s\<lparr>ships_batch := []\<rparr>)))"

text \<open>Lines 722 to 731.\<close>

definition write_static :: "env \<Rightarrow> flush_step" where
  "write_static e = (\<lambda>(tx, s).
     if static_data_batch s = [] then Inr (tx, s)
     else (case write_fault e ShipStaticDataTemp of
             Some err \<Rightarrow> Inl (err, s)
           | None \<Rightarrow>
               Inr (tx\<lparr>ship_static_data_temp_tbl :=
                          ship_static_data_temp_tbl tx @ static_data_batch s\<rparr>,
                    s\<lparr>static_data_batch := []\<rparr>)))"

text \<open>Lines 734 to 743.\<close>

definition write_position :: "env \<Rightarrow> flush_step" where
  "write_position e = (\<lambda>(tx, s).
     if position_data_batch s = [] then Inr (tx, s)
     else (case write_fault e ShipData of
             Some err \<Rightarrow> Inl (err, s)
           | None \<Rightarrow>
               Inr (tx\<lparr>ship_data_tbl := ship_data_tbl tx @ position_data_batch s\<rparr>,
                    s\<lparr>position_data_batch := []\<rparr>)))"

text \<open>Lines 746 to 757.\<close>

definition write_unknown :: "env \<Rightarrow> flush_step" where
  "write_unknown e = (\<lambda>(tx, s).
     if unknown_data_batch s = [] then Inr (tx, s)
     else (case write_fault e UnknownShips of
             Some err \<Rightarrow> Inl (err, s)
           | None \<Rightarrow>
               Inr (tx\<lparr>unknown_ships_tbl := unknown_ships_tbl tx @ unknown_data_batch s\<rparr>,
                    s\<lparr>unknown_data_batch := []\<rparr>)))"

text \<open>
  Lines 759 and 760: \<^verbatim>\<open>conn.commit()\<close> makes the transaction the content of the store,
  and only then is \<^verbatim>\<open>last_commit_time\<close> set.
\<close>

definition commit :: "env \<Rightarrow> flush_step" where
  "commit e = (\<lambda>(tx, s).
     case commit_fault e of
       Some err \<Rightarrow> Inl (err, s)
     | None \<Rightarrow> Inr (tx, s\<lparr>store := tx, last_commit_time := current_time e\<rparr>))"

text \<open>
  Lines 700 to 771, the flush block. The \<^verbatim>\<open>except psycopg2.Error\<close> handler rolls the
  transaction back: the store keeps its content, and the local variables stay as the
  statements before the failure left them. Opening a new connection after an
  \<^verbatim>\<open>OperationalError\<close> changes neither.
\<close>

definition flush_batches :: "env \<Rightarrow> state \<Rightarrow> state" where
  "flush_batches e s0 =
     (let s = s0\<lparr>flush_attempts := flush_attempts s0 + 1\<rparr>
      in result_state
           (and_then (and_then (and_then (and_then
              (write_ships e (store s, s))
              (write_static e)) (write_position e)) (write_unknown e)) (commit e)))"

text \<open>The body of the loop for one received message, lines 540 to 771.\<close>

definition process_message :: "config \<Rightarrow> env \<Rightarrow> state \<Rightarrow> message \<Rightarrow> outcome" where
  "process_message cfg e s message =
     (case handle_message cfg e s message of
        Handled s' \<Rightarrow> Handled (if flush_due cfg e s' then flush_batches e s' else s')
      | Skipped s' \<Rightarrow> Skipped s'
      | Raised exn \<Rightarrow> Raised exn)"

text \<open>
  \<^verbatim>\<open>process_pending_batches\<close>: the four writes and the commit, with the batches as
  arguments; it assigns to none of them. Every exception is caught inside, the
  transaction is rolled back, and the function returns normally. The result is the
  content of the store afterwards.
\<close>

definition process_pending_batches ::
  "env \<Rightarrow> database \<Rightarrow> ships_row list \<Rightarrow> static_row list \<Rightarrow> position_row list
   \<Rightarrow> unknown_row list \<Rightarrow> database" where
  "process_pending_batches e conn ships_b static_b position_b unknown_b =
     (if (ships_b \<noteq> [] \<and> write_fault e Ships \<noteq> None)
         \<or> (static_b \<noteq> [] \<and> write_fault e ShipStaticDataTemp \<noteq> None)
         \<or> (position_b \<noteq> [] \<and> write_fault e ShipData \<noteq> None)
         \<or> (unknown_b \<noteq> [] \<and> write_fault e UnknownShips \<noteq> None)
         \<or> commit_fault e \<noteq> None
      then conn
      else \<lparr>ships_tbl = executemany_upsert (ships_tbl conn) ships_b,
            ship_static_data_temp_tbl = ship_static_data_temp_tbl conn @ static_b,
            ship_data_tbl = ship_data_tbl conn @ position_b,
            unknown_ships_tbl = unknown_ships_tbl conn @ unknown_b\<rparr>)"

text \<open>
  Lines 821 to 842, the handler of \<^verbatim>\<open>ConnectionClosedError\<close>: when the stream was
  connected and something is pending on an open store connection, the pending batches
  are handed to \<^verbatim>\<open>process_pending_batches\<close> and the four lists are emptied after it
  returns.
\<close>

definition on_connection_closed :: "env \<Rightarrow> bool \<Rightarrow> state \<Rightarrow> state" where
  "on_connection_closed e was_connected s =
     (if was_connected \<and> 0 < pending_count s \<and> \<not> conn_closed e then
        s\<lparr>store := process_pending_batches e (store s) (ships_batch s) (static_data_batch s)
                     (position_data_batch s) (unknown_data_batch s),
          ships_batch := [], static_data_batch := [],
          position_data_batch := [], unknown_data_batch := []\<rparr>
      else s)"

subsection \<open>Startup\<close>

datatype log_line =
    ConnectionAttemptFailed nat  \<comment> \<open>"Database connection attempt n failed"\<close>
  | MaximumAttemptsReached      \<comment> \<open>"Maximum database connection attempts reached. Exiting."\<close>
  | FailedToStart               \<comment> \<open>"Failed to start AIS Data Collector"\<close>
  | ShapefileNotFound           \<comment> \<open>"North Sea shapefile not found"\<close>

datatype startup =
    Connected nat            \<comment> \<open>the loop left by \<^verbatim>\<open>break\<close> in this attempt\<close>
  | GaveUp                   \<comment> \<open>the \<^verbatim>\<open>return\<close> of line 468\<close>
  | LoopExhausted            \<comment> \<open>the \<^verbatim>\<open>for\<close> ran out: \<^verbatim>\<open>conn\<close> is still \<^verbatim>\<open>None\<close>\<close>

text \<open>
  Lines 456 to 469: \<^verbatim>\<open>for attempt in range(MAX_DB_RETRIES)\<close>. \<open>connect_ok attempt\<close> says
  whether \<^verbatim>\<open>psycopg2.connect\<close> succeeds in that attempt. The result carries the log
  lines written and the seconds slept, \<^verbatim>\<open>2 ** attempt\<close> after each failure but the last.
\<close>

fun connect_loop ::
  "(nat \<Rightarrow> bool) \<Rightarrow> nat list \<Rightarrow> log_line list \<Rightarrow> nat list \<Rightarrow> startup \<times> log_line list \<times> nat list" where
  "connect_loop connect_ok [] logged slept = (LoopExhausted, logged, slept)"
| "connect_loop connect_ok (attempt # rest) logged slept =
     (if connect_ok attempt then (Connected attempt, logged, slept)
      else if attempt = MAX_DB_RETRIES - 1
      then (GaveUp, logged @ [ConnectionAttemptFailed (attempt + 1), MaximumAttemptsReached],
            slept)
      else connect_loop connect_ok rest
             (logged @ [ConnectionAttemptFailed (attempt + 1)]) (slept @ [2 ^ attempt]))"

definition connect_database :: "(nat \<Rightarrow> bool) \<Rightarrow> startup \<times> log_line list \<times> nat list" where
  "connect_database connect_ok = connect_loop connect_ok [0..<MAX_DB_RETRIES] [] []"

text \<open>
  The \<^verbatim>\<open>__main__\<close> block. \<^verbatim>\<open>migrate_database\<close> opens a connection of its own, once and
  outside any \<^verbatim>\<open>try\<close>; the block catches every \<^verbatim>\<open>Exception\<close> and logs it. The block has
  no call of \<^verbatim>\<open>sys.exit\<close>: when it returns, the interpreter ends with status 0. With a
  connection the receive loop does not return.
\<close>

record startup_env =
  migrate_connect_ok :: bool
  shapefile_exists :: bool
  shapefile_loads :: bool
  connect_ok :: "nat \<Rightarrow> bool"

datatype process_end =
    Exit nat "log_line list"  \<comment> \<open>the exit status and what was logged\<close>
  | Streaming                 \<comment> \<open>the receive loop runs\<close>

definition main :: "startup_env \<Rightarrow> process_end" where
  "main w =
     (if \<not> migrate_connect_ok w then Exit 0 [FailedToStart]
      else if \<not> shapefile_exists w then Exit 0 [ShapefileNotFound]
      else if \<not> shapefile_loads w then Exit 0 [FailedToStart]
      else (case connect_database (connect_ok w) of
              (Connected attempt, logged, slept) \<Rightarrow> Streaming
            | (GaveUp, logged, slept) \<Rightarrow> Exit 0 logged
            | (LoopExhausted, logged, slept) \<Rightarrow> Exit 0 (logged @ [FailedToStart])))"

text \<open>
  Lines 471 to 499, the variables before the first message. \<^verbatim>\<open>load_mmsi_to_imo_mapping\<close>
  reads every registry row with an MMSI and keeps the pairs whose two numbers are
  truthy, a later row replacing an earlier one; when its query raises, the mapping
  starts empty.
\<close>

definition load_mmsi_to_imo_mapping :: "bool \<Rightarrow> database \<Rightarrow> (int \<rightharpoonup> int)" where
  "load_mmsi_to_imo_mapping query_fails conn =
     (if query_fails then Map.empty
      else foldl (\<lambda>m r. case row_mmsi r of
                           Some mmsi \<Rightarrow>
                             if mmsi \<noteq> 0 \<and> row_imo r \<noteq> 0 then m(mmsi \<mapsto> row_imo r) else m
                         | None \<Rightarrow> m)
             Map.empty (ships_tbl conn))"

definition initial_state :: "bool \<Rightarrow> database \<Rightarrow> real \<Rightarrow> state" where
  "initial_state load_fails conn t =
     \<lparr>store = conn, mmsi_to_imo = load_mmsi_to_imo_mapping load_fails conn,
      ships_batch = [], static_data_batch = [], position_data_batch = [],
      unknown_data_batch = [], last_commit_time = t, collected_count = 0,
      filtered_count = 0, static_data_count = 0, position_data_count = 0,
      no_imo_filtered_count = 0, imo_queries = 0, flush_attempts = 0\<rparr>"

section \<open>The specification's own notions, and sample inputs\<close>

definition empty_database :: database where
  "empty_database =
     \<lparr>ships_tbl = [], ship_static_data_temp_tbl = [], ship_data_tbl = [],
      unknown_ships_tbl = []\<rparr>"

text \<open>An environment in which nothing fails, with the clock at \<open>t\<close>.\<close>

definition calm :: "real \<Rightarrow> env" where
  "calm t =
     \<lparr>current_time = t, imo_query_fails = False, destination_query = (\<lambda>imo. Inr None),
      write_fault = (\<lambda>tbl. None), commit_fault = None, conn_closed = False\<rparr>"

definition sample_metadata :: "real jfield \<Rightarrow> meta_data" where
  "sample_metadata lat =
     \<lparr>MMSI = JVal 230000001, latitude = lat, longitude = JVal 3,
      time_utc = JVal ''2024-01-02 03:04:05.123456789 +0000 UTC''\<rparr>"

text \<open>A boundary of one polygon that contains no point.\<close>

definition outside_everything :: geo_shape where
  "outside_everything = (\<lambda>lon lat. Inr [False])"

definition all_attempts_fail :: startup_env where
  "all_attempts_fail =
     \<lparr>migrate_connect_ok = True, shapefile_exists = True, shapefile_loads = True,
      connect_ok = (\<lambda>attempt. False)\<rparr>"

text \<open>
  The specification's length and width: the sum when both operands are present in the
  message, absent otherwise.
\<close>

definition spec_length :: "dimension jfield \<Rightarrow> int option" where
  "spec_length f =
     (case f of
        JVal d \<Rightarrow>
          (case dim_A d of
             JVal a \<Rightarrow> (case dim_B d of JVal b \<Rightarrow> Some (a + b) | Absent \<Rightarrow> None | JNull \<Rightarrow> None)
           | Absent \<Rightarrow> None | JNull \<Rightarrow> None)
      | Absent \<Rightarrow> None | JNull \<Rightarrow> None)"

definition spec_width :: "dimension jfield \<Rightarrow> int option" where
  "spec_width f =
     (case f of
        JVal d \<Rightarrow>
          (case dim_C d of
             JVal c \<Rightarrow> (case dim_D d of JVal d' \<Rightarrow> Some (c + d') | Absent \<Rightarrow> None | JNull \<Rightarrow> None)
           | Absent \<Rightarrow> None | JNull \<Rightarrow> None)
      | Absent \<Rightarrow> None | JNull \<Rightarrow> None)"

text \<open>The length and width columns of a row of each batch.\<close>

definition ships_row_size :: "ships_row \<Rightarrow> int option \<times> int option" where
  "ships_row_size = (\<lambda>(imo_number, mmsi, name, ship_type, length, width, max_draught).
     (length, width))"

definition static_row_size :: "static_row \<Rightarrow> int option \<times> int option" where
  "static_row_size = (\<lambda>(imo_number, mmsi, name, ship_type, length, width, rest).
     (length, width))"

definition unknown_row_size :: "unknown_row \<Rightarrow> int option \<times> int option" where
  "unknown_row_size = (\<lambda>(imo_number, mmsi, name, ship_type, length, width, rest).
     (length, width))"

text \<open>A valid IMO: reported, and not the sentinel 0.\<close>

definition valid_imo :: "int jfield \<Rightarrow> bool" where
  "valid_imo f = (case f of JVal i \<Rightarrow> i \<noteq> 0 | Absent \<Rightarrow> False | JNull \<Rightarrow> False)"

text \<open>
  The messages that no filter discards: a \<^verbatim>\<open>MessageType\<close>, both coordinates, a position
  inside at least one polygon, and a timestamp that parses.
\<close>

definition reaches_flush_check :: "config \<Rightarrow> message \<Rightarrow> bool" where
  "reaches_flush_check cfg m =
     (case m of
        Untyped \<Rightarrow> False
      | Typed metadata body \<Rightarrow>
          (case jget (latitude metadata) of
             None \<Rightarrow> False
           | Some lat \<Rightarrow>
               (case jget (longitude metadata) of
                  None \<Rightarrow> False
                | Some lon \<Rightarrow>
                    north_sea_shape cfg lon lat \<in> Inr ` {inside. True \<in> set inside}
                    \<and> (case time_utc metadata of
                          Absent \<Rightarrow> False
                        | JNull \<Rightarrow> False
                        | JVal raw \<Rightarrow> parse_timestamp raw \<in> range Inr))))"

text \<open>A boundary of one polygon that contains every point.\<close>

definition everywhere :: geo_shape where
  "everywhere = (\<lambda>lon lat. Inr [True])"

definition sample_position :: position_report where
  "sample_position =
     \<lparr>Sog = JVal 12.3, Cog = JVal 180, NavigationalStatus = JVal 0, RateOfTurn = Absent,
      TrueHeading = JVal 181\<rparr>"

definition fresh_state :: state where
  "fresh_state = initial_state False empty_database 0"

definition sample_static :: ship_static_data where
  "sample_static =
     \<lparr>ImoNumber = JVal 9123456, Name = JVal ''EVER GIVEN'', Type = JVal 70,
      Dimension = JVal \<lparr>dim_A = JVal 100, dim_B = JVal 50, dim_C = JVal 10, dim_D = JVal 10\<rparr>,
      MaximumStaticDraught = JVal 7.5, Destination = JVal ''ROTTERDAM''\<rparr>"

definition sample_ts :: timestamp_ais where
  "sample_ts = (2024, 1, 2, 3, 4, 5, 123456)"

definition sample_position_row :: position_row where
  "sample_position_row =
     (9123456, sample_ts, 55, 3, Some ''ROTTERDAM'', Some 12.3, Some 180, Some 0, None, Some 181)"

definition sample_position_message :: message where
  "sample_position_message = Typed (sample_metadata (JVal 55)) (PositionReport sample_position)"

definition sample_static_message :: message where
  "sample_static_message = Typed (sample_metadata (JVal 55)) (ShipStaticData sample_static)"

text \<open>Ninety-nine position records pending, one short of the batch size of the source.\<close>

definition nearly_full :: state where
  "nearly_full = fresh_state\<lparr>position_data_batch := replicate 99 sample_position_row\<rparr>"

text \<open>The variables after the sample static message has been classified.\<close>

definition after_static :: "state \<Rightarrow> state" where
  "after_static s =
     handle_static (source_config everywhere) s (Some 230000001) 55 3 sample_ts sample_static"

definition one_static_pending :: state where
  "one_static_pending = after_static fresh_state"

text \<open>The write to \<^verbatim>\<open>ship_static_data_temp\<close> raises; the commit raises.\<close>

definition static_fault :: env where
  "static_fault =
     (calm 10)\<lparr>write_fault :=
        (\<lambda>tbl. if tbl = ShipStaticDataTemp then Some OperationalError else None)\<rparr>"

definition commit_failure :: env where
  "commit_failure = (calm 10)\<lparr>commit_fault := Some OperationalError\<rparr>"

text \<open>
  The registry row that line 612 queues for a static message with the valid IMO
  \<open>imo_number\<close>.
\<close>

definition registry_row_of :: "int \<Rightarrow> int option \<Rightarrow> ship_static_data \<Rightarrow> ships_row" where
  "registry_row_of imo_number mmsi ship_data =
     (imo_number, mmsi, jget_default (Name ship_data) ''Unknown'', jget (Type ship_data),
      spec_length (Dimension ship_data), spec_width (Dimension ship_data),
      jget (MaximumStaticDraught ship_data))"

text \<open>The same vessel reported again, with another name and type.\<close>

definition renamed_static :: ship_static_data where
  "renamed_static = sample_static\<lparr>Name := JVal ''EVER GIVEN II'', Type := JVal 71\<rparr>"

text \<open>
  The specification's "most recent match": of the registry rows with the MMSI, the one
  inserted last.
\<close>

definition spec_most_recent_match :: "database \<Rightarrow> int \<Rightarrow> int option" where
  "spec_most_recent_match conn mmsi =
     (case filter (\<lambda>r. row_mmsi r = Some mmsi) (ships_tbl conn) of
        [] \<Rightarrow> None
      | r # rs \<Rightarrow> Some (row_imo (last (r # rs))))"

text \<open>A registry in which two vessels were inserted, one after the other, with one MMSI.\<close>

definition two_owners :: database where
  "two_owners =
     empty_database\<lparr>ships_tbl :=
       executemany_upsert []
         [registry_row_of 9123456 (Some 230000001) sample_static,
          registry_row_of 9234567 (Some 230000001) renamed_static]\<rparr>"

text \<open>
  The specification's exact shape \<^verbatim>\<open>YYYY-MM-DD HH:MM:SS.<fractional> +HHMM UTC\<close>, and the
  language of the regular expression of \<^verbatim>\<open>parse_timestamp\<close>, which is matched after the
  \<^verbatim>\<open>UTC\<close> markers are removed: any white-space character before the offset, and a
  newline allowed at the end.
\<close>

definition spec_shape :: "string \<Rightarrow> bool" where
  "spec_shape s =
     (\<exists>d f z. s = d @ ''.'' @ f @ '' +'' @ z @ '' UTC''
        \<and> date_time_shape d \<and> f \<noteq> [] \<and> all_digits f \<and> length z = 4 \<and> all_digits z)"

definition pattern_shape :: "string \<Rightarrow> bool" where
  "pattern_shape ts =
     (\<exists>d f w z nl. ts = d @ ''.'' @ f @ [w] @ ''+'' @ z @ nl
        \<and> date_time_shape d \<and> f \<noteq> [] \<and> all_digits f \<and> is_space w
        \<and> length z = 4 \<and> all_digits z \<and> (nl = [] \<or> nl = [CHR 0x0A]))"


section \<open>Properties\<close>

subsection \<open>The filters in front of the classifier\<close>

lemma handle_message_absent:
  "jget (latitude metadata) = None \<or> jget (longitude metadata) = None \<Longrightarrow>
   handle_message cfg e s (Typed metadata body) = Skipped s"
  by (auto simp: handle_message_def Let_def split: option.splits)

lemma handle_message_not_inside:
  "jget (latitude metadata) = Some lat \<Longrightarrow> jget (longitude metadata) = Some lon \<Longrightarrow>
   is_point_in_north_sea (Some lat) (Some lon) (north_sea_shape cfg) = Inr False \<Longrightarrow>
   handle_message cfg e s (Typed metadata body)
     = Skipped (s\<lparr>filtered_count := filtered_count s + 1\<rparr>)"
  by (simp add: handle_message_def)

lemma handle_message_outside:
  assumes "jget (latitude metadata) = Some lat" "jget (longitude metadata) = Some lon"
    and "north_sea_shape cfg lon lat = Inr inside" "True \<notin> set inside"
  shows "handle_message cfg e s (Typed metadata body)
     = Skipped (s\<lparr>filtered_count := filtered_count s + 1\<rparr>)"
proof -
  have "any_py inside = False"
    using assms(4) by (simp add: any_py_def)
  then have "is_point_in_north_sea (Some lat) (Some lon) (north_sea_shape cfg) = Inr False"
    using assms(3) by (simp add: is_point_in_north_sea_def)
  then show ?thesis
    using assms(1,2) by (rule handle_message_not_inside [rotated 2])
qed

lemma process_message_skipped:
  "handle_message cfg e s m = Skipped s' \<Longrightarrow> process_message cfg e s m = Skipped s'"
  by (simp add: process_message_def)

text \<open>
  Claim C10. \<^verbatim>\<open>is_point_in_north_sea\<close> returns a boolean for every input and never
  raises: it returns \<^verbatim>\<open>False\<close> when the latitude or the longitude is absent, and
  \<^verbatim>\<open>False\<close> when the geometry test raises; in the receive loop a message whose geometry
  test raises is then dropped and counted as out of region, and the loop goes on.
\<close>

theorem is_point_in_north_sea_never_raises:
  "(\<exists>b. is_point_in_north_sea lat_opt lon_opt shape = Inr b)
   \<and> (lat_opt = None \<or> lon_opt = None \<longrightarrow>
        is_point_in_north_sea lat_opt lon_opt shape = Inr False)
   \<and> (\<forall>lat lon exn. lat_opt = Some lat \<and> lon_opt = Some lon \<and> shape lon lat = Inl exn \<longrightarrow>
        is_point_in_north_sea lat_opt lon_opt shape = Inr False
        \<and> (\<forall>cfg e s metadata body.
              north_sea_shape cfg = shape \<and> jget (latitude metadata) = lat_opt
              \<and> jget (longitude metadata) = lon_opt \<longrightarrow>
              process_message cfg e s (Typed metadata body)
                = Skipped (s\<lparr>filtered_count := filtered_count s + 1\<rparr>)))"
proof -
  have total: "\<exists>b. is_point_in_north_sea lat_opt lon_opt shape = Inr b"
    by (auto simp: is_point_in_north_sea_def split: option.split sum.split)
  have absent: "lat_opt = None \<or> lon_opt = None \<longrightarrow>
      is_point_in_north_sea lat_opt lon_opt shape = Inr False"
    by (auto simp: is_point_in_north_sea_def split: option.split)
  have raised: "is_point_in_north_sea (Some lat) (Some lon) shape = Inr False"
    if "shape lon lat = Inl exn" for lat lon exn
    using that by (simp add: is_point_in_north_sea_def)
  have loop: "process_message cfg e s (Typed metadata body)
      = Skipped (s\<lparr>filtered_count := filtered_count s + 1\<rparr>)"
    if "shape lon lat = Inl exn" "north_sea_shape cfg = shape"
      "jget (latitude metadata) = Some lat" "jget (longitude metadata) = Some lon"
    for lat lon exn cfg e s metadata body
    using that raised [OF that(1)]
    by (intro process_message_skipped handle_message_not_inside) simp_all
  show ?thesis
    using total absent raised loop by blast
qed

theorem is_point_in_north_sea_never_raises_witness:
  "is_point_in_north_sea (Some 55) (Some 3) (\<lambda>lon lat. Inl GeometryError) = Inr False
   \<and> process_message (source_config (\<lambda>lon lat. Inl GeometryError)) (calm 0)
        (initial_state False empty_database 0) (Typed (sample_metadata (JVal 55)) OtherMessage)
      = Skipped ((initial_state False empty_database 0)\<lparr>filtered_count := 1\<rparr>)
   \<and> is_point_in_north_sea None (Some 3) (\<lambda>lon lat. Inl GeometryError) = Inr False"
  using is_point_in_north_sea_never_raises
          [of "Some 55" "Some 3" "\<lambda>lon lat. Inl GeometryError"]
        is_point_in_north_sea_never_raises
          [of None "Some 3" "\<lambda>lon lat. Inl GeometryError"]
  by (simp add: source_config_def sample_metadata_def jget_def initial_state_def)

text \<open>
  Claim C8, as the specification states it, fails: a message without a latitude is left
  by the \<^verbatim>\<open>continue\<close> of line 553, before the geographic filter is called, and the
  "filtered" counter stays at 0.
\<close>

theorem absent_position_counterexample:
  "process_message (source_config outside_everything) (calm 0)
       (initial_state False empty_database 0) (Typed (sample_metadata JNull) OtherMessage)
     = Skipped (initial_state False empty_database 0)
   \<and> filtered_count (initial_state False empty_database 0) = 0"
  by (simp add: process_message_def handle_message_def sample_metadata_def jget_def
      initial_state_def)

text \<open>
  Claim C8, amended. A message whose latitude or longitude is absent is discarded
  without further processing and leaves every counter as it was; the "filtered"
  counter is incremented, by one, for a present position that lies outside all
  polygons.
\<close>

theorem absent_position_not_counted:
  "(jget (latitude metadata) = None \<or> jget (longitude metadata) = None \<longrightarrow>
      process_message cfg e s (Typed metadata body) = Skipped s)
   \<and> (\<forall>lat lon inside.
         jget (latitude metadata) = Some lat \<and> jget (longitude metadata) = Some lon
         \<and> north_sea_shape cfg lon lat = Inr inside \<and> True \<notin> set inside \<longrightarrow>
         process_message cfg e s (Typed metadata body)
           = Skipped (s\<lparr>filtered_count := filtered_count s + 1\<rparr>))"
  using handle_message_absent [of metadata cfg e s body]
    handle_message_outside [of metadata _ _ cfg _ e s body]
  by (simp add: process_message_skipped)

theorem absent_position_not_counted_witness:
  "process_message (source_config outside_everything) (calm 0)
       (initial_state False empty_database 0) (Typed (sample_metadata Absent) OtherMessage)
     = Skipped (initial_state False empty_database 0)
   \<and> process_message (source_config outside_everything) (calm 0)
       (initial_state False empty_database 0) (Typed (sample_metadata (JVal 55)) OtherMessage)
     = Skipped ((initial_state False empty_database 0)\<lparr>filtered_count := 1\<rparr>)"
  using absent_position_not_counted
          [of "sample_metadata Absent" "source_config outside_everything"]
        absent_position_not_counted
          [of "sample_metadata (JVal 55)" "source_config outside_everything"]
  by (simp add: sample_metadata_def jget_def source_config_def outside_everything_def
      initial_state_def)

subsection \<open>Startup\<close>

lemma attempts_list: "[0..<MAX_DB_RETRIES] = [0, 1, 2]"
  by (simp add: MAX_DB_RETRIES_def upt_rec)

lemma connect_database_unfold:
  "connect_database ok =
     (if ok 0 then (Connected 0, [], [])
      else if ok 1 then (Connected 1, [ConnectionAttemptFailed 1], [1])
      else if ok 2
      then (Connected 2, [ConnectionAttemptFailed 1, ConnectionAttemptFailed 2], [1, 2])
      else (GaveUp,
            [ConnectionAttemptFailed 1, ConnectionAttemptFailed 2, ConnectionAttemptFailed 3,
             MaximumAttemptsReached], [1, 2]))"
  by (simp add: connect_database_def attempts_list) (simp add: MAX_DB_RETRIES_def)

text \<open>
  Claim C9, as the specification states it, fails: when the three attempts of
  \<^verbatim>\<open>connect_ais_stream\<close> fail, the function logs and returns, \<^verbatim>\<open>asyncio.run\<close> returns, the
  \<^verbatim>\<open>__main__\<close> block ends, and the exit status is 0.
\<close>

theorem startup_exit_status_counterexample:
  "main all_attempts_fail
     = Exit 0 [ConnectionAttemptFailed 1, ConnectionAttemptFailed 2,
               ConnectionAttemptFailed 3, MaximumAttemptsReached]"
  by (simp add: main_def all_attempts_fail_def connect_database_unfold)

text \<open>
  Claim C9, amended. In \<^verbatim>\<open>connect_ais_stream\<close> a failed connection to the store is
  retried up to three attempts, with waits of 1 and 2 seconds (\<^verbatim>\<open>2 ** attempt\<close>) between
  them; when every attempt fails, each failure and the final give-up are logged, the
  function returns and the process ends with exit status 0. The first attempt that
  succeeds ends the retries.
\<close>

theorem startup_retry_then_return:
  "((\<forall>attempt < MAX_DB_RETRIES. \<not> connect_ok w attempt) \<longrightarrow>
      connect_database (connect_ok w)
        = (GaveUp,
           [ConnectionAttemptFailed 1, ConnectionAttemptFailed 2, ConnectionAttemptFailed 3,
            MaximumAttemptsReached], [1, 2])
      \<and> (migrate_connect_ok w \<and> shapefile_exists w \<and> shapefile_loads w \<longrightarrow>
           main w = Exit 0 [ConnectionAttemptFailed 1, ConnectionAttemptFailed 2,
                            ConnectionAttemptFailed 3, MaximumAttemptsReached]))
   \<and> (\<forall>attempt < MAX_DB_RETRIES.
         connect_ok w attempt \<and> (\<forall>earlier < attempt. \<not> connect_ok w earlier) \<longrightarrow>
         connect_database (connect_ok w)
           = (Connected attempt, map (\<lambda>i. ConnectionAttemptFailed (i + 1)) [0..<attempt],
              map (\<lambda>i. 2 ^ i) [0..<attempt]))"
proof -
  have three: "attempt = 0 \<or> attempt = 1 \<or> attempt = 2" if "attempt < MAX_DB_RETRIES" for attempt
    using that by (auto simp: MAX_DB_RETRIES_def)
  have none: "\<not> connect_ok w 0 \<and> \<not> connect_ok w 1 \<and> \<not> connect_ok w 2"
    if "\<forall>attempt < MAX_DB_RETRIES. \<not> connect_ok w attempt"
    using that by (simp add: MAX_DB_RETRIES_def)
  have gave_up: "connect_database (connect_ok w)
        = (GaveUp,
           [ConnectionAttemptFailed 1, ConnectionAttemptFailed 2, ConnectionAttemptFailed 3,
            MaximumAttemptsReached], [1, 2])"
    if "\<forall>attempt < MAX_DB_RETRIES. \<not> connect_ok w attempt"
    using none [OF that] by (simp add: connect_database_unfold)
  have exits: "main w = Exit 0 [ConnectionAttemptFailed 1, ConnectionAttemptFailed 2,
                            ConnectionAttemptFailed 3, MaximumAttemptsReached]"
    if "\<forall>attempt < MAX_DB_RETRIES. \<not> connect_ok w attempt"
      "migrate_connect_ok w \<and> shapefile_exists w \<and> shapefile_loads w"
    using that(2) gave_up [OF that(1)] by (simp add: main_def)
  have succeeds: "connect_database (connect_ok w)
           = (Connected attempt, map (\<lambda>i. ConnectionAttemptFailed (i + 1)) [0..<attempt],
              map (\<lambda>i. 2 ^ i) [0..<attempt])"
    if "attempt < MAX_DB_RETRIES" "connect_ok w attempt"
      "\<forall>earlier < attempt. \<not> connect_ok w earlier" for attempt
    using three [OF that(1)] that(2,3)
    by (auto simp: connect_database_unfold upt_rec)
  show ?thesis
    using gave_up exits succeeds by blast
qed

theorem startup_retry_then_return_witness:
  "connect_database (\<lambda>attempt. False)
     = (GaveUp,
        [ConnectionAttemptFailed 1, ConnectionAttemptFailed 2, ConnectionAttemptFailed 3,
         MaximumAttemptsReached], [1, 2])
   \<and> main all_attempts_fail
       = Exit 0 [ConnectionAttemptFailed 1, ConnectionAttemptFailed 2,
                 ConnectionAttemptFailed 3, MaximumAttemptsReached]
   \<and> connect_database (\<lambda>attempt. attempt = 1)
       = (Connected 1, [ConnectionAttemptFailed 1], [1])"
  using startup_retry_then_return [of all_attempts_fail]
    startup_retry_then_return [of "all_attempts_fail\<lparr>connect_ok := (\<lambda>attempt. attempt = 1)\<rparr>"]
  by (simp add: all_attempts_fail_def MAX_DB_RETRIES_def upt_rec)

subsection \<open>The classifier\<close>

lemma sample_replace:
  "replace_utc ''2024-01-02 03:04:05.123456789 +0000 UTC''
     = ''2024-01-02 03:04:05.123456789 +0000''"
  by (simp add: replace_utc.simps)

lemma sample_match:
  "re_match ''2024-01-02 03:04:05.123456789 +0000''
     = Some (''2024-01-02 03:04:05'', ''123456789'', ''+0000'')"
  by (simp add: re_match_def date_time_shape_def all_digits_def is_digit_def is_space_def)

lemma sample_strptime:
  "strptime ''2024-01-02 03:04:05.123456+0000'' =
     Inr \<lparr>year = 2024, month = 1, day = 2, hour = 3, minute = 4, second = 5,
          microsecond = 123456, utcoffset = 0\<rparr>"
  by (simp add: strptime_def int_of_digits_def digit_val_def days_in_month_def is_leap_def
      date_time_shape_def all_digits_def is_digit_def)

lemma sample_timestamp:
  "parse_timestamp ''2024-01-02 03:04:05.123456789 +0000 UTC'' =
     Inr \<lparr>year = 2024, month = 1, day = 2, hour = 3, minute = 4, second = 5,
          microsecond = 123456, utcoffset = 0\<rparr>"
  by (simp add: parse_timestamp_def sample_replace sample_match sample_strptime)

lemma parse_timestamp_empty: "parse_timestamp [] = Inl ValueError"
  by (simp add: parse_timestamp_def replace_utc.simps re_match_def date_time_shape_def)

lemma sample_inside:
  "is_point_in_north_sea (Some 55) (Some 3) (north_sea_shape (source_config everywhere))
     = Inr True"
  by (simp add: is_point_in_north_sea_def source_config_def everywhere_def any_py_def)

lemma static_dimensions_spec:
  "static_dimensions f = (spec_length f, spec_width f)"
proof (cases f)
  case Absent
  then show ?thesis
    by (simp add: static_dimensions_def spec_length_def spec_width_def jget_default_def)
next
  case JNull
  then show ?thesis
    by (simp add: static_dimensions_def spec_length_def spec_width_def jget_default_def)
next
  case (JVal d)
  show ?thesis
  proof (cases "d = empty_dimension")
    case True
    with JVal show ?thesis
      by (simp add: static_dimensions_def spec_length_def spec_width_def jget_default_def
          empty_dimension_def)
  next
    case False
    with JVal show ?thesis
      by (simp add: static_dimensions_def spec_length_def spec_width_def jget_default_def
          jget_def split: jfield.splits)
  qed
qed

lemma handle_static_ships_batch:
  "map ships_row_size (ships_batch (handle_static cfg s mmsi lat lon ts ship_data))
     = map ships_row_size (ships_batch s)
       @ (if valid_imo (ImoNumber ship_data)
          then [(spec_length (Dimension ship_data), spec_width (Dimension ship_data))] else [])"
  by (simp add: handle_static_def static_dimensions_spec valid_imo_def jget_def Let_def
      ships_row_size_def split: jfield.splits option.splits)

lemma handle_static_static_batch:
  "map static_row_size (static_data_batch (handle_static cfg s mmsi lat lon ts ship_data))
     = map static_row_size (static_data_batch s)
       @ (if valid_imo (ImoNumber ship_data)
          then [(spec_length (Dimension ship_data), spec_width (Dimension ship_data))] else [])"
  by (simp add: handle_static_def static_dimensions_spec valid_imo_def jget_def Let_def
      static_row_size_def split: jfield.splits option.splits)

lemma handle_static_unknown_batch:
  "map unknown_row_size (unknown_data_batch (handle_static cfg s mmsi lat lon ts ship_data))
     = map unknown_row_size (unknown_data_batch s)
       @ (if \<not> valid_imo (ImoNumber ship_data) \<and> SAVE_NO_IMO_VESSELS cfg
          then [(spec_length (Dimension ship_data), spec_width (Dimension ship_data))] else [])"
  by (simp add: handle_static_def static_dimensions_spec valid_imo_def jget_def Let_def
      unknown_row_size_def split: jfield.splits option.splits)

text \<open>
  Claim C6. For every static message the computed length is dimension A plus dimension
  B when both are present and is absent when either is missing, and the computed width
  is C plus D when both are present and absent otherwise; the rows that the message
  adds to the batches carry exactly these two values.
\<close>

theorem dimensions_never_partial:
  "static_dimensions (Dimension ship_data)
     = (spec_length (Dimension ship_data), spec_width (Dimension ship_data))
   \<and> map ships_row_size (ships_batch (handle_static cfg s mmsi lat lon ts ship_data))
     = map ships_row_size (ships_batch s)
       @ (if valid_imo (ImoNumber ship_data)
          then [(spec_length (Dimension ship_data), spec_width (Dimension ship_data))] else [])
   \<and> map static_row_size (static_data_batch (handle_static cfg s mmsi lat lon ts ship_data))
     = map static_row_size (static_data_batch s)
       @ (if valid_imo (ImoNumber ship_data)
          then [(spec_length (Dimension ship_data), spec_width (Dimension ship_data))] else [])
   \<and> map unknown_row_size (unknown_data_batch (handle_static cfg s mmsi lat lon ts ship_data))
     = map unknown_row_size (unknown_data_batch s)
       @ (if \<not> valid_imo (ImoNumber ship_data) \<and> SAVE_NO_IMO_VESSELS cfg
          then [(spec_length (Dimension ship_data), spec_width (Dimension ship_data))] else [])"
  by (simp only: static_dimensions_spec handle_static_ships_batch handle_static_static_batch
      handle_static_unknown_batch simp_thms)

lemma resolve_frame:
  "resolve e s mmsi = (found, s1) \<Longrightarrow>
     ships_batch s1 = ships_batch s \<and> static_data_batch s1 = static_data_batch s
     \<and> position_data_batch s1 = position_data_batch s
     \<and> unknown_data_batch s1 = unknown_data_batch s
     \<and> no_imo_filtered_count s1 = no_imo_filtered_count s
     \<and> flush_attempts s1 = flush_attempts s \<and> last_commit_time s1 = last_commit_time s
     \<and> store s1 = store s"
  by (auto simp: resolve_def Let_def split: option.splits prod.splits)

lemma handle_message_passed:
  assumes "jget (latitude metadata) = Some lat" "jget (longitude metadata) = Some lon"
    and "is_point_in_north_sea (Some lat) (Some lon) (north_sea_shape cfg) = Inr True"
    and "jget_default (time_utc metadata) [] = Some raw" "parse_timestamp raw = Inr dt"
  shows "handle_message cfg e s (Typed metadata body) =
     (case body of
        ShipStaticData ship_data \<Rightarrow>
          Handled (handle_static cfg s (jget (MMSI metadata)) lat lon (strftime dt) ship_data)
      | PositionReport position_data \<Rightarrow>
          Handled (handle_position cfg e s (jget (MMSI metadata)) lat lon (strftime dt)
                     position_data)
      | OtherMessage \<Rightarrow> Handled s)"
  using assms by (simp add: handle_message_def Let_def)

text \<open>
  Claim C2. For every \<^verbatim>\<open>PositionReport\<close> that passes the geographic filter and the
  timestamp parse exactly one of three things happens: a position record with the
  resolved IMO is appended; or, the IMO being unresolved and the retention switch on,
  an unidentified record is appended; or, the IMO being unresolved and the switch off,
  nothing is appended and the no-IMO counter grows by one.
\<close>

theorem position_report_never_silently_dropped:
  assumes "jget (latitude metadata) = Some lat" "jget (longitude metadata) = Some lon"
    and "is_point_in_north_sea (Some lat) (Some lon) (north_sea_shape cfg) = Inr True"
    and "jget_default (time_utc metadata) [] = Some raw" "parse_timestamp raw = Inr dt"
  shows "\<exists>s'. handle_message cfg e s (Typed metadata (PositionReport position_data)) = Handled s'
     \<and> ships_batch s' = ships_batch s \<and> static_data_batch s' = static_data_batch s
     \<and> (case fst (resolve e s (jget (MMSI metadata))) of
          Some imo_number \<Rightarrow>
            position_data_batch s' = position_data_batch s @
              [(imo_number, strftime dt, lat, lon, get_recent_destination e imo_number,
                jget (Sog position_data), jget (Cog position_data),
                jget (NavigationalStatus position_data), jget (RateOfTurn position_data),
                jget (TrueHeading position_data))]
            \<and> unknown_data_batch s' = unknown_data_batch s
            \<and> no_imo_filtered_count s' = no_imo_filtered_count s
        | None \<Rightarrow>
            if SAVE_NO_IMO_VESSELS cfg then
              unknown_data_batch s' = unknown_data_batch s @
                [(- 1, jget (MMSI metadata), None, None, None, None, None, None, strftime dt,
                  lat, lon, jget (Sog position_data), jget (Cog position_data),
                  jget (NavigationalStatus position_data), jget (RateOfTurn position_data),
                  jget (TrueHeading position_data))]
              \<and> position_data_batch s' = position_data_batch s
              \<and> no_imo_filtered_count s' = no_imo_filtered_count s
            else
              no_imo_filtered_count s' = no_imo_filtered_count s + 1
              \<and> position_data_batch s' = position_data_batch s
              \<and> unknown_data_batch s' = unknown_data_batch s)"
proof -
  obtain found s1 where r: "resolve e s (jget (MMSI metadata)) = (found, s1)"
    by (cases "resolve e s (jget (MMSI metadata))")
  note frame = resolve_frame [OF r]
  have "handle_message cfg e s (Typed metadata (PositionReport position_data))
      = Handled (handle_position cfg e s (jget (MMSI metadata)) lat lon (strftime dt)
                   position_data)"
    using handle_message_passed [OF assms] by simp
  then show ?thesis
    using r frame
    by (cases found) (simp_all add: handle_position_def Let_def)
qed

theorem position_report_never_silently_dropped_witness:
  "\<exists>s'. handle_message (source_config everywhere) (calm 0) (initial_state False empty_database 0)
          (Typed (sample_metadata (JVal 55)) (PositionReport sample_position)) = Handled s'
     \<and> position_data_batch s' = [] \<and> unknown_data_batch s' = []
     \<and> no_imo_filtered_count s' = 1"
proof -
  have inside: "is_point_in_north_sea (Some 55) (Some 3)
      (north_sea_shape (source_config everywhere)) = Inr True"
    by (simp add: is_point_in_north_sea_def source_config_def everywhere_def any_py_def)
  have unresolved: "fst (resolve (calm 0) (initial_state False empty_database 0)
      (jget (MMSI (sample_metadata (JVal 55))))) = None"
    by (simp add: resolve_def find_imo_by_mmsi_def initial_state_def empty_database_def
        load_mmsi_to_imo_mapping_def sample_metadata_def jget_def calm_def)
  show ?thesis
    using position_report_never_silently_dropped
      [of "sample_metadata (JVal 55)" 55 3 "source_config everywhere"
        "''2024-01-02 03:04:05.123456789 +0000 UTC''" _ "calm 0"
        "initial_state False empty_database 0" sample_position,
        OF _ _ inside _ sample_timestamp]
      unresolved
    by (auto simp: sample_metadata_def jget_def jget_default_def source_config_def
        initial_state_def)
qed

subsection \<open>When the flush block is entered\<close>

lemma handle_static_frame:
  "flush_attempts (handle_static cfg s mmsi lat lon ts ship_data) = flush_attempts s
   \<and> last_commit_time (handle_static cfg s mmsi lat lon ts ship_data) = last_commit_time s
   \<and> pending_count (handle_static cfg s mmsi lat lon ts ship_data) \<le> pending_count s + 2"
  by (simp add: handle_static_def Let_def pending_count_def
      split: option.splits prod.splits)

lemma handle_position_frame:
  "flush_attempts (handle_position cfg e s mmsi lat lon ts position_data) = flush_attempts s
   \<and> last_commit_time (handle_position cfg e s mmsi lat lon ts position_data)
       = last_commit_time s
   \<and> pending_count (handle_position cfg e s mmsi lat lon ts position_data)
       \<le> pending_count s + 2"
proof -
  obtain found s1 where r: "resolve e s mmsi = (found, s1)"
    by (cases "resolve e s mmsi")
  show ?thesis
    using r resolve_frame [OF r]
    by (cases found) (simp_all add: handle_position_def Let_def pending_count_def)
qed

lemma pending_count_filtered [simp]:
  "pending_count (s\<lparr>filtered_count := n\<rparr>) = pending_count s"
  by (simp add: pending_count_def)

lemma handle_message_frame:
  assumes "handle_message cfg e s m = Handled s' \<or> handle_message cfg e s m = Skipped s'"
  shows "flush_attempts s' = flush_attempts s \<and> last_commit_time s' = last_commit_time s
   \<and> pending_count s' \<le> pending_count s + 2"
  using assms
  by (auto simp: handle_message_def Let_def handle_static_frame handle_position_frame
      simp del: add_2_eq_Suc add_2_eq_Suc'
      split: message.splits option.splits sum.splits bool.splits if_splits payload.splits)

lemma handle_message_handled_iff:
  "(\<exists>s'. handle_message cfg e s m = Handled s') = reaches_flush_check cfg m"
  by (auto simp: handle_message_def reaches_flush_check_def Let_def parse_timestamp_empty
      is_point_in_north_sea_def any_py_def jget_default_def image_iff
      split: message.splits option.splits sum.splits bool.splits if_splits payload.splits
        jfield.splits)

lemma and_then_preserves:
  assumes "\<And>tx s. g (result_state (f (tx, s))) = g s"
  shows "g (result_state (and_then r f)) = g (result_state r)"
  using assms by (cases r) (auto simp: and_then_def result_state_def)

lemma write_ships_attempts:
  "flush_attempts (result_state (write_ships e (tx, s))) = flush_attempts s"
  by (simp add: write_ships_def result_state_def split: option.split)

lemma write_static_attempts:
  "flush_attempts (result_state (write_static e (tx, s))) = flush_attempts s"
  by (simp add: write_static_def result_state_def split: option.split)

lemma write_position_attempts:
  "flush_attempts (result_state (write_position e (tx, s))) = flush_attempts s"
  by (simp add: write_position_def result_state_def split: option.split)

lemma write_unknown_attempts:
  "flush_attempts (result_state (write_unknown e (tx, s))) = flush_attempts s"
  by (simp add: write_unknown_def result_state_def split: option.split)

lemma commit_attempts:
  "flush_attempts (result_state (commit e (tx, s))) = flush_attempts s"
  by (simp add: commit_def result_state_def split: option.split)

lemma flush_batches_attempts:
  "flush_attempts (flush_batches e s) = flush_attempts s + 1"
  unfolding flush_batches_def Let_def
  by (simp only: and_then_preserves [where g = flush_attempts, OF commit_attempts]
      and_then_preserves [where g = flush_attempts, OF write_unknown_attempts]
      and_then_preserves [where g = flush_attempts, OF write_position_attempts]
      and_then_preserves [where g = flush_attempts, OF write_static_attempts]
      write_ships_attempts) simp

lemma sample_reaches:
  "reaches_flush_check (source_config everywhere) sample_position_message"
  by (simp add: reaches_flush_check_def sample_position_message_def sample_metadata_def
      jget_def source_config_def everywhere_def sample_timestamp)

lemma sample_not_reaches:
  "\<not> reaches_flush_check (source_config outside_everything) sample_position_message"
  by (simp add: reaches_flush_check_def sample_position_message_def sample_metadata_def
      jget_def source_config_def outside_everything_def image_iff)

lemma pending_fresh: "pending_count fresh_state = 0"
  by (simp add: pending_count_def fresh_state_def initial_state_def)

lemma sample_static_handled:
  "handle_message (source_config everywhere) e s sample_static_message
     = Handled (after_static s)"
  using handle_message_passed
    [of "sample_metadata (JVal 55)" 55 3 "source_config everywhere"
      "''2024-01-02 03:04:05.123456789 +0000 UTC''" _ e s "ShipStaticData sample_static",
      OF _ _ sample_inside _ sample_timestamp]
  by (simp add: sample_static_message_def after_static_def sample_metadata_def jget_def
      jget_default_def strftime_def sample_ts_def)

lemma after_static_pending: "pending_count (after_static s) = pending_count s + 2"
  by (simp add: after_static_def handle_static_def sample_static_def jget_def
      jget_default_def pending_count_def Let_def split: prod.split)

text \<open>
  Claim C3, as the specification states it, fails twice. A message that a filter
  discards leaves the loop body by \<^verbatim>\<open>continue\<close> before the flush check: eleven seconds
  after the last commit no flush is entered. And a static message with a valid IMO
  appends two records before the check: from 99 pending records the 100th and the
  101st are both appended before the flush.
\<close>

theorem flush_trigger_counterexample:
  "process_message (source_config outside_everything) (calm 11) fresh_state
       sample_position_message = Skipped (fresh_state\<lparr>filtered_count := 1\<rparr>)
   \<and> flush_attempts (fresh_state\<lparr>filtered_count := 1\<rparr>) = 0
   \<and> current_time (calm 11) - last_commit_time (fresh_state\<lparr>filtered_count := 1\<rparr>) \<ge> 10
   \<and> pending_count nearly_full = 99
   \<and> handle_message (source_config everywhere) (calm 0) nearly_full sample_static_message
       = Handled (after_static nearly_full)
   \<and> flush_attempts (after_static nearly_full) = 0
   \<and> pending_count (after_static nearly_full) = 101
   \<and> BATCH_SIZE (source_config everywhere) = 100"
proof -
  have skipped: "process_message (source_config outside_everything) (calm 11) fresh_state
       sample_position_message = Skipped (fresh_state\<lparr>filtered_count := 1\<rparr>)"
    by (simp add: process_message_def handle_message_def sample_position_message_def
        sample_metadata_def jget_def source_config_def outside_everything_def
        is_point_in_north_sea_def any_py_def fresh_state_def initial_state_def)
  have pending: "pending_count nearly_full = 99"
    by (simp add: nearly_full_def pending_count_def fresh_state_def initial_state_def)
  have attempts: "flush_attempts (after_static nearly_full) = 0"
    using handle_static_frame [of "source_config everywhere" nearly_full]
    by (simp add: after_static_def nearly_full_def fresh_state_def initial_state_def)
  have elapsed: "flush_attempts (fresh_state\<lparr>filtered_count := 1\<rparr>) = 0
      \<and> current_time (calm 11) - last_commit_time (fresh_state\<lparr>filtered_count := 1\<rparr>) \<ge> 10"
    by (simp add: fresh_state_def initial_state_def calm_def)
  have size: "BATCH_SIZE (source_config everywhere) = 100"
    by (simp add: source_config_def)
  show ?thesis
    using skipped pending attempts elapsed size
    by (simp add: sample_static_handled after_static_pending)
qed

text \<open>
  Claim C3, amended. After every message that no filter discards, the flush block is
  entered if and only if the combined pending count is at least the batch size or at
  least ten seconds have passed since the last successful commit; such a message
  appends at most two records before the check. A message that a filter discards
  triggers no flush.
\<close>

theorem flush_check_after_handled_messages:
  "(reaches_flush_check cfg m \<longrightarrow>
      (\<exists>s' s''. handle_message cfg e s m = Handled s'
         \<and> process_message cfg e s m = Handled s''
         \<and> pending_count s' \<le> pending_count s + 2
         \<and> flush_attempts s'' = flush_attempts s
              + (if BATCH_SIZE cfg \<le> pending_count s'
                    \<or> 10 \<le> current_time e - last_commit_time s then 1 else 0)))
   \<and> (\<not> reaches_flush_check cfg m \<longrightarrow>
        (\<exists>s'. process_message cfg e s m = Skipped s' \<and> flush_attempts s' = flush_attempts s)
        \<or> (\<exists>exn. process_message cfg e s m = Raised exn))"
proof (intro conjI impI)
  assume "reaches_flush_check cfg m"
  then obtain s' where h: "handle_message cfg e s m = Handled s'"
    using handle_message_handled_iff [of cfg e s m] by blast
  have frame: "flush_attempts s' = flush_attempts s" "last_commit_time s' = last_commit_time s"
    "pending_count s' \<le> pending_count s + 2"
    using handle_message_frame [of cfg e s m s'] h by simp_all
  define s'' where "s'' = (if flush_due cfg e s' then flush_batches e s' else s')"
  have p: "process_message cfg e s m = Handled s''"
    using h by (simp add: process_message_def s''_def)
  have "flush_attempts s'' = flush_attempts s
      + (if BATCH_SIZE cfg \<le> pending_count s'
            \<or> 10 \<le> current_time e - last_commit_time s then 1 else 0)"
    using frame(1,2) by (simp add: s''_def flush_due_def flush_batches_attempts)
  with h p frame(3) show "\<exists>s' s''. handle_message cfg e s m = Handled s'
         \<and> process_message cfg e s m = Handled s''
         \<and> pending_count s' \<le> pending_count s + 2
         \<and> flush_attempts s'' = flush_attempts s
              + (if BATCH_SIZE cfg \<le> pending_count s'
                    \<or> 10 \<le> current_time e - last_commit_time s then 1 else 0)"
    by blast
next
  assume not_reached: "\<not> reaches_flush_check cfg m"
  show "(\<exists>s'. process_message cfg e s m = Skipped s' \<and> flush_attempts s' = flush_attempts s)
        \<or> (\<exists>exn. process_message cfg e s m = Raised exn)"
  proof (cases "handle_message cfg e s m")
    case (Skipped s')
    then show ?thesis
      using handle_message_frame [of cfg e s m s'] by (simp add: process_message_def)
  next
    case (Handled s')
    then show ?thesis
      using not_reached handle_message_handled_iff [of cfg e s m] by blast
  next
    case (Raised exn)
    then show ?thesis
      by (simp add: process_message_def)
  qed
qed

theorem flush_check_after_handled_messages_witness:
  "(\<exists>s''. process_message (source_config everywhere) (calm 10) fresh_state
             sample_position_message = Handled s'' \<and> flush_attempts s'' = 1)
   \<and> (\<exists>s''. process_message (source_config everywhere) (calm 9) fresh_state
             sample_position_message = Handled s'' \<and> flush_attempts s'' = 0)
   \<and> ((\<exists>s'. process_message (source_config outside_everything) (calm 10) fresh_state
             sample_position_message = Skipped s' \<and> flush_attempts s' = 0)
       \<or> (\<exists>exn. process_message (source_config outside_everything) (calm 10) fresh_state
             sample_position_message = Raised exn))"
proof -
  have zero: "flush_attempts fresh_state = 0" "last_commit_time fresh_state = 0"
    by (simp_all add: fresh_state_def initial_state_def)
  have size: "BATCH_SIZE (source_config shape) = 100" for shape
    by (simp add: source_config_def)
  show ?thesis
    using flush_check_after_handled_messages
        [of "source_config everywhere" sample_position_message "calm 10" fresh_state]
      flush_check_after_handled_messages
        [of "source_config everywhere" sample_position_message "calm 9" fresh_state]
      flush_check_after_handled_messages
        [of "source_config outside_everything" sample_position_message "calm 10" fresh_state]
      sample_reaches sample_not_reaches
    by (auto simp: zero size pending_fresh calm_def)
qed

subsection \<open>The flush\<close>

lemma executemany_upsert_Nil [simp]: "executemany_upsert table [] = table"
  by (simp add: executemany_upsert_def)

lemma write_ships_result:
  "write_ships e (tx, s) =
     (if ships_batch s \<noteq> [] \<and> write_fault e Ships \<noteq> None
      then Inl (the (write_fault e Ships), s)
      else Inr (tx\<lparr>ships_tbl := executemany_upsert (ships_tbl tx) (ships_batch s)\<rparr>,
                s\<lparr>ships_batch := []\<rparr>))"
  by (cases "ships_batch s = []") (auto simp: write_ships_def split: option.split)

lemma write_static_result:
  "write_static e (tx, s) =
     (if static_data_batch s \<noteq> [] \<and> write_fault e ShipStaticDataTemp \<noteq> None
      then Inl (the (write_fault e ShipStaticDataTemp), s)
      else Inr (tx\<lparr>ship_static_data_temp_tbl :=
                       ship_static_data_temp_tbl tx @ static_data_batch s\<rparr>,
                s\<lparr>static_data_batch := []\<rparr>))"
  by (cases "static_data_batch s = []") (auto simp: write_static_def split: option.split)

lemma write_position_result:
  "write_position e (tx, s) =
     (if position_data_batch s \<noteq> [] \<and> write_fault e ShipData \<noteq> None
      then Inl (the (write_fault e ShipData), s)
      else Inr (tx\<lparr>ship_data_tbl := ship_data_tbl tx @ position_data_batch s\<rparr>,
                s\<lparr>position_data_batch := []\<rparr>))"
  by (cases "position_data_batch s = []") (auto simp: write_position_def split: option.split)

lemma write_unknown_result:
  "write_unknown e (tx, s) =
     (if unknown_data_batch s \<noteq> [] \<and> write_fault e UnknownShips \<noteq> None
      then Inl (the (write_fault e UnknownShips), s)
      else Inr (tx\<lparr>unknown_ships_tbl := unknown_ships_tbl tx @ unknown_data_batch s\<rparr>,
                s\<lparr>unknown_data_batch := []\<rparr>))"
  by (cases "unknown_data_batch s = []") (auto simp: write_unknown_def split: option.split)

text \<open>
  What a flush does to the store is all or nothing, and it is what
  \<^verbatim>\<open>process_pending_batches\<close> does with the same batches.
\<close>

lemma flush_batches_store:
  "store (flush_batches e s) =
     process_pending_batches e (store s) (ships_batch s) (static_data_batch s)
       (position_data_batch s) (unknown_data_batch s)"
  by (cases "store s")
    (auto simp: flush_batches_def and_then_def result_state_def write_ships_result
      write_static_result write_position_result write_unknown_result commit_def
      process_pending_batches_def Let_def split: option.split)

lemma flush_batches_no_fault:
  assumes "write_fault e = (\<lambda>tbl. None)" "commit_fault e = None"
  shows "flush_batches e s =
     s\<lparr>flush_attempts := flush_attempts s + 1,
       ships_batch := [], static_data_batch := [], position_data_batch := [],
       unknown_data_batch := [],
       store := (store s)\<lparr>ships_tbl := executemany_upsert (ships_tbl (store s)) (ships_batch s),
                 ship_static_data_temp_tbl :=
                   ship_static_data_temp_tbl (store s) @ static_data_batch s,
                 ship_data_tbl := ship_data_tbl (store s) @ position_data_batch s,
                 unknown_ships_tbl := unknown_ships_tbl (store s) @ unknown_data_batch s\<rparr>,
       last_commit_time := current_time e\<rparr>"
  using assms
  by (simp add: flush_batches_def and_then_def write_ships_result write_static_result
      write_position_result write_unknown_result commit_def Let_def result_state_def)

text \<open>
  Claim C1 says that a failed flush leaves every pending list as it was. The store is
  indeed left as it was, but the source empties each list right after its own write,
  before the commit. With one registry
  row and one static observation pending and a failing write of the static
  observation, the transaction is rolled back, the store is unchanged, and the registry
  row is in no list any more. In the handler of a closed stream the four lists are
  emptied after \<^verbatim>\<open>process_pending_batches\<close> returns, also when its commit failed.
\<close>

theorem failed_flush_loses_registry_rows:
  "ships_batch one_static_pending
     = [(9123456, Some 230000001, Some ''EVER GIVEN'', Some 70, Some 150, Some 20, Some 7.5)]
   \<and> store one_static_pending = empty_database
   \<and> ships_batch (flush_batches static_fault one_static_pending) = []
   \<and> static_data_batch (flush_batches static_fault one_static_pending)
       = static_data_batch one_static_pending
   \<and> store (flush_batches static_fault one_static_pending) = empty_database
   \<and> pending_count (on_connection_closed commit_failure True one_static_pending) = 0
   \<and> store (on_connection_closed commit_failure True one_static_pending) = empty_database"
proof -
  have s: "one_static_pending =
      fresh_state\<lparr>mmsi_to_imo := (mmsi_to_imo fresh_state)(230000001 \<mapsto> 9123456),
        ships_batch :=
          [(9123456, Some 230000001, Some ''EVER GIVEN'', Some 70, Some 150, Some 20,
            Some 7.5)],
        static_data_batch :=
          [(9123456, Some 230000001, Some ''EVER GIVEN'', Some 70, Some 150, Some 20,
            Some 7.5, Some ''ROTTERDAM'', sample_ts, 55, 3)],
        static_data_count := 1, collected_count := 1\<rparr>"
    by (simp add: one_static_pending_def after_static_def handle_static_def sample_static_def
        jget_def jget_default_def static_dimensions_def empty_dimension_def Let_def
        fresh_state_def initial_state_def)
  have flushed: "flush_batches static_fault one_static_pending
      = one_static_pending\<lparr>flush_attempts := 1, ships_batch := []\<rparr>"
    by (simp add: s flush_batches_def and_then_def write_ships_def write_static_def
        result_state_def static_fault_def calm_def fresh_state_def initial_state_def)
  have closed: "on_connection_closed commit_failure True one_static_pending
      = one_static_pending\<lparr>ships_batch := [], static_data_batch := []\<rparr>"
    by (simp add: s on_connection_closed_def process_pending_batches_def commit_failure_def
        calm_def pending_count_def fresh_state_def initial_state_def)
  show ?thesis
    unfolding flushed closed
    by (simp add: s fresh_state_def initial_state_def pending_count_def)
qed

subsection \<open>The upsert of the vessel registry\<close>

lemma upsert_ship_keys:
  "map row_imo (upsert_ship new rows) =
     (if row_imo new \<in> set (map row_imo rows) then map row_imo rows
      else map row_imo rows @ [row_imo new])"
  by (induction rows) (auto simp: row_imo_def)

lemma upsert_ship_distinct:
  "distinct (map row_imo rows) \<Longrightarrow> distinct (map row_imo (upsert_ship new rows))"
  by (simp add: upsert_ship_keys)

lemma upsert_ship_find:
  "find (\<lambda>r. row_imo r = k) (upsert_ship new rows) =
     (if row_imo new = k
      then Some (k, (case find (\<lambda>r. row_imo r = k) rows of
                       Some old \<Rightarrow> row_mmsi old | None \<Rightarrow> row_mmsi new),
                 row_attributes new)
      else find (\<lambda>r. row_imo r = k) rows)"
proof (induction rows)
  case Nil
  show ?case
    by (cases new) (auto simp: row_imo_def row_mmsi_def row_attributes_def)
next
  case (Cons old rows)
  then show ?case
    by (auto simp: row_imo_def)
qed

lemma executemany_upsert_Cons:
  "executemany_upsert table (new # batch) = executemany_upsert (upsert_ship new table) batch"
  by (simp add: executemany_upsert_def)

lemma executemany_upsert_distinct:
  "distinct (map row_imo table) \<Longrightarrow> distinct (map row_imo (executemany_upsert table batch))"
  by (induction batch arbitrary: table)
    (simp_all add: executemany_upsert_Cons upsert_ship_distinct)

lemma executemany_upsert_find:
  assumes "batch \<noteq> []" "\<forall>r \<in> set batch. row_imo r = k"
  shows "find (\<lambda>r. row_imo r = k) (executemany_upsert table batch) =
     Some (k, (case find (\<lambda>r. row_imo r = k) table of
                 Some old \<Rightarrow> row_mmsi old | None \<Rightarrow> row_mmsi (hd batch)),
           row_attributes (last batch))"
  using assms
proof (induction batch arbitrary: table)
  case Nil
  then show ?case by simp
next
  case (Cons new batch)
  show ?case
  proof (cases "batch = []")
    case True
    with Cons.prems show ?thesis
      by (simp add: executemany_upsert_Cons upsert_ship_find split: option.split)
  next
    case False
    with Cons.prems Cons.IH [of "upsert_ship new table"] show ?thesis
      by (simp add: executemany_upsert_Cons upsert_ship_find row_mmsi_def
          split: option.split)
  qed
qed

lemma executemany_upsert_other:
  assumes "\<forall>r \<in> set batch. row_imo r = k" "k' \<noteq> k"
  shows "find (\<lambda>r. row_imo r = k') (executemany_upsert table batch)
     = find (\<lambda>r. row_imo r = k') table"
  using assms
  by (induction batch arbitrary: table)
    (simp_all add: executemany_upsert_Cons upsert_ship_find)

lemma filter_of_find:
  "distinct (map row_imo rows) \<Longrightarrow>
   filter (\<lambda>r. row_imo r = k) rows =
     (case find (\<lambda>r. row_imo r = k) rows of None \<Rightarrow> [] | Some r \<Rightarrow> [r])"
proof (induction rows)
  case Nil
  show ?case by simp
next
  case (Cons r rows)
  show ?case
  proof (cases "row_imo r = k")
    case True
    with Cons.prems have "k \<notin> row_imo ` set rows"
      by simp
    then have "\<forall>x \<in> set rows. row_imo x \<noteq> k"
      by blast
    then have "filter (\<lambda>r. row_imo r = k) rows = []"
      by (simp add: filter_empty_conv)
    with True show ?thesis by simp
  next
    case False
    with Cons show ?thesis by simp
  qed
qed

lemma handle_static_queues:
  "ImoNumber ship_data = JVal imo_number \<Longrightarrow> imo_number \<noteq> 0 \<Longrightarrow>
   ships_batch (handle_static cfg s mmsi lat lon ts ship_data)
     = ships_batch s @ [registry_row_of imo_number mmsi ship_data]"
  by (simp add: handle_static_def static_dimensions_spec jget_def Let_def
      registry_row_of_def split: option.splits)

text \<open>
  Claim C4. A static message with a valid IMO queues one registry row with its values;
  a flush without failure applies the queued rows to the registry in order; and for
  every non-empty sequence of such rows with one IMO, applied to a registry with at
  most one row for each IMO, the registry afterwards has exactly one row for that IMO,
  whose name, type, length, width and draught are those of the latest row and whose
  MMSI is the one the registry had for that IMO (that of the first row when there was
  none). The rows of the other IMOs are unchanged.
\<close>

theorem registry_upsert_last_write_wins:
  "(\<forall>imo_number. ImoNumber ship_data = JVal imo_number \<and> imo_number \<noteq> 0 \<longrightarrow>
      ships_batch (handle_static cfg s mmsi lat lon ts ship_data)
        = ships_batch s @ [registry_row_of imo_number mmsi ship_data])
   \<and> (write_fault e = (\<lambda>tbl. None) \<and> commit_fault e = None \<longrightarrow>
        ships_tbl (store (flush_batches e s))
          = executemany_upsert (ships_tbl (store s)) (ships_batch s))
   \<and> (distinct (map row_imo table) \<and> batch \<noteq> [] \<and> (\<forall>r \<in> set batch. row_imo r = k) \<longrightarrow>
        filter (\<lambda>r. row_imo r = k) (executemany_upsert table batch)
          = [(k, (case find (\<lambda>r. row_imo r = k) table of
                    Some old \<Rightarrow> row_mmsi old | None \<Rightarrow> row_mmsi (hd batch)),
              row_attributes (last batch))]
        \<and> (\<forall>k'. k' \<noteq> k \<longrightarrow>
              filter (\<lambda>r. row_imo r = k') (executemany_upsert table batch)
                = filter (\<lambda>r. row_imo r = k') table))"
proof (intro conjI impI allI)
  fix imo_number
  assume "ImoNumber ship_data = JVal imo_number \<and> imo_number \<noteq> 0"
  then show "ships_batch (handle_static cfg s mmsi lat lon ts ship_data)
        = ships_batch s @ [registry_row_of imo_number mmsi ship_data]"
    by (simp add: handle_static_queues)
next
  assume "write_fault e = (\<lambda>tbl. None) \<and> commit_fault e = None"
  then show "ships_tbl (store (flush_batches e s))
          = executemany_upsert (ships_tbl (store s)) (ships_batch s)"
    by (simp add: flush_batches_no_fault)
next
  assume a: "distinct (map row_imo table) \<and> batch \<noteq> [] \<and> (\<forall>r \<in> set batch. row_imo r = k)"
  then have d: "distinct (map row_imo (executemany_upsert table batch))"
    by (simp add: executemany_upsert_distinct)
  show "filter (\<lambda>r. row_imo r = k) (executemany_upsert table batch)
          = [(k, (case find (\<lambda>r. row_imo r = k) table of
                    Some old \<Rightarrow> row_mmsi old | None \<Rightarrow> row_mmsi (hd batch)),
              row_attributes (last batch))]"
    using a by (simp add: filter_of_find [OF d] executemany_upsert_find)
  fix k'
  assume "k' \<noteq> k"
  then show "filter (\<lambda>r. row_imo r = k') (executemany_upsert table batch)
                = filter (\<lambda>r. row_imo r = k') table"
    using a executemany_upsert_other [of batch k k' table]
    by (simp add: filter_of_find [OF d] filter_of_find)
qed

theorem registry_upsert_last_write_wins_witness:
  "ships_batch (handle_static (source_config everywhere) fresh_state (Some 230000001) 55 3
       sample_ts sample_static)
     = [registry_row_of 9123456 (Some 230000001) sample_static]
   \<and> ships_tbl (store (flush_batches (calm 10) one_static_pending))
       = executemany_upsert [] (ships_batch one_static_pending)
   \<and> filter (\<lambda>r. row_imo r = 9123456)
        (executemany_upsert []
           [registry_row_of 9123456 (Some 230000001) sample_static,
            registry_row_of 9123456 (Some 230000002) renamed_static])
       = [(9123456, Some 230000001, Some ''EVER GIVEN II'', Some 71, Some 150, Some 20,
           Some 7.5)]"
  using registry_upsert_last_write_wins
    [of sample_static "source_config everywhere" fresh_state "Some 230000001" 55 3 sample_ts
      "calm 10" "[]"
      "[registry_row_of 9123456 (Some 230000001) sample_static,
        registry_row_of 9123456 (Some 230000002) renamed_static]" 9123456]
    registry_upsert_last_write_wins
    [of sample_static "source_config everywhere" one_static_pending "Some 230000001" 55 3
      sample_ts "calm 10" "[]" "[registry_row_of 9123456 (Some 230000001) sample_static]"
      9123456]
  by (simp add: sample_static_def renamed_static_def registry_row_of_def row_imo_def
      row_mmsi_def row_attributes_def jget_def jget_default_def spec_length_def spec_width_def
      fresh_state_def initial_state_def calm_def one_static_pending_def after_static_def
      handle_static_def empty_database_def Let_def static_dimensions_spec)

subsection \<open>The identity resolver\<close>

lemma two_owners_rows:
  "ships_tbl two_owners =
     [(9123456, Some 230000001, Some ''EVER GIVEN'', Some 70, Some 150, Some 20, Some 7.5),
      (9234567, Some 230000001, Some ''EVER GIVEN II'', Some 71, Some 150, Some 20, Some 7.5)]"
  by (simp add: two_owners_def empty_database_def executemany_upsert_def registry_row_of_def
      sample_static_def renamed_static_def row_imo_def row_mmsi_def row_attributes_def
      jget_def jget_default_def spec_length_def spec_width_def)

lemma first_match:
  "(case filter P rows of [] \<Rightarrow> (None, n) | result # rest \<Rightarrow> (Some (f result), n))
     = (map_option f (find P rows), n)"
  by (induction rows) simp_all

lemma find_imo_by_mmsi_result:
  "find_imo_by_mmsi e conn m =
     ((if m = 0 \<or> imo_query_fails e then None
       else map_option row_imo (find (\<lambda>r. row_mmsi r = Some m) (ships_tbl conn))),
      (if m = 0 then 0 else 1))"
  by (simp add: find_imo_by_mmsi_def first_match)

text \<open>
  Claim C7, as the specification states it, fails in "the most recent match": the
  query has \<^verbatim>\<open>LIMIT 1\<close> and no \<^verbatim>\<open>ORDER BY\<close>, and the registry has no time column. With two
  rows for one MMSI the first row of the scan is taken, here the one inserted first.
\<close>

theorem resolve_most_recent_counterexample:
  "fst (resolve (calm 0) (initial_state True two_owners 0) (Some 230000001)) = Some 9123456
   \<and> spec_most_recent_match two_owners 230000001 = Some 9234567"
  by (simp add: resolve_def find_imo_by_mmsi_def initial_state_def
      load_mmsi_to_imo_mapping_def two_owners_rows calm_def spec_most_recent_match_def
      row_mmsi_def row_imo_def)

text \<open>
  Claim C7, amended. For an MMSI with no entry in the in-memory mapping, the resolver
  sends at most one query to the store (none for the MMSI 0) and takes the first row
  the store has for that MMSI; on a hit the IMO is written to the mapping, and a second
  call for the same MMSI returns the same IMO and leaves the state, with its count of
  queries, as it is; when no row matches or the query fails, the result is absent and
  the mapping is unchanged.
\<close>

theorem resolve_store_once_then_cached:
  assumes "mmsi_to_imo s m = None"
  shows "\<exists>found s'. resolve e s (Some m) = (found, s')
     \<and> found = (if m = 0 \<or> imo_query_fails e then None
                else map_option row_imo
                       (find (\<lambda>r. row_mmsi r = Some m) (ships_tbl (store s))))
     \<and> imo_queries s' = imo_queries s + (if m = 0 then 0 else 1)
     \<and> (case found of
          Some imo_number \<Rightarrow>
            mmsi_to_imo s' = (mmsi_to_imo s)(m \<mapsto> imo_number)
            \<and> (\<forall>e2. resolve e2 s' (Some m) = (Some imo_number, s'))
        | None \<Rightarrow> mmsi_to_imo s' = mmsi_to_imo s)"
proof -
  define found where "found = (if m = 0 \<or> imo_query_fails e then None
      else map_option row_imo (find (\<lambda>r. row_mmsi r = Some m) (ships_tbl (store s))))"
  define sent :: nat where "sent = (if m = 0 then 0 else 1)"
  have q: "find_imo_by_mmsi e (store s) m = (found, sent)"
    by (simp add: find_imo_by_mmsi_result found_def sent_def)
  show ?thesis
  proof (cases found)
    case None
    then have "resolve e s (Some m) = (None, s\<lparr>imo_queries := imo_queries s + sent\<rparr>)"
      using assms q by (simp add: resolve_def)
    then show ?thesis
      using None by (simp add: found_def [symmetric] sent_def)
  next
    case (Some imo_number)
    define s' where "s' = s\<lparr>imo_queries := imo_queries s + sent,
      mmsi_to_imo := (mmsi_to_imo s)(m \<mapsto> imo_number)\<rparr>"
    have first: "resolve e s (Some m) = (Some imo_number, s')"
      using assms q Some by (simp add: resolve_def s'_def)
    have again: "resolve e2 s' (Some m) = (Some imo_number, s')" for e2
      by (simp add: resolve_def s'_def)
    show ?thesis
      using first again Some
      by (simp add: found_def [symmetric]) (simp add: s'_def sent_def)
  qed
qed

theorem resolve_store_once_then_cached_witness:
  "\<exists>s'. resolve (calm 0) (initial_state True two_owners 0) (Some 230000001)
           = (Some 9123456, s')
     \<and> imo_queries s' = 1
     \<and> mmsi_to_imo s' 230000001 = Some 9123456
     \<and> resolve (calm 1) s' (Some 230000001) = (Some 9123456, s')"
proof -
  have "mmsi_to_imo (initial_state True two_owners 0) 230000001 = None"
    by (simp add: initial_state_def load_mmsi_to_imo_mapping_def)
  from resolve_store_once_then_cached [OF this, of "calm 0"] show ?thesis
    by (auto simp: calm_def initial_state_def two_owners_rows row_mmsi_def row_imo_def)
qed

subsection \<open>The timestamp normalizer\<close>

lemma take_1_eq: "take 1 xs = [x] \<Longrightarrow> xs = x # drop 1 xs"
  by (cases xs) simp_all

lemma re_match_shape:
  assumes "re_match ts = Some (g1, g2, g3)"
  shows "pattern_shape ts"
proof -
  define r1 where "r1 = drop 19 ts"
  define r2 where "r2 = dropWhile is_digit (drop 1 r1)"
  define r3 where "r3 = drop 5 (drop 1 r2)"
  have m: "date_time_shape (take 19 ts)" "take 1 r1 = ''.''"
    "takeWhile is_digit (drop 1 r1) \<noteq> []"
    "list_all is_space (take 1 r2)" "length (take 1 r2) = 1"
    "length (take 5 (drop 1 r2)) = 5" "take 1 (take 5 (drop 1 r2)) = ''+''"
    "all_digits (drop 1 (take 5 (drop 1 r2)))" "r3 = [] \<or> r3 = [CHR 0x0A]"
    using assms
    by (simp_all add: re_match_def Let_def r1_def r2_def r3_def split: if_splits)
  obtain w where w: "take 1 r2 = [w]"
    using m(5) by (cases r2) simp_all
  have sp: "is_space w"
    using m(4) w by simp
  have p1: "ts = take 19 ts @ r1"
    by (simp add: r1_def)
  have p2: "r1 = ''.'' @ drop 1 r1"
    using take_1_eq [OF m(2)] by simp
  have p3: "drop 1 r1 = takeWhile is_digit (drop 1 r1) @ r2"
    by (simp add: r2_def)
  have p4: "r2 = [w] @ drop 1 r2"
    using take_1_eq [OF w] by simp
  have p5: "drop 1 r2 = take 5 (drop 1 r2) @ r3"
    unfolding r3_def by (rule append_take_drop_id [symmetric])
  have p6: "take 5 (drop 1 r2) = ''+'' @ drop 1 (take 5 (drop 1 r2))"
    using take_1_eq [OF m(7)] by simp
  have len: "length (drop 1 (take 5 (drop 1 r2))) = 4"
    using m(6) by simp
  have digits: "all_digits (takeWhile is_digit (drop 1 r1))"
    by (simp add: all_digits_def list_all_iff) (meson set_takeWhileD)
  have "ts = take 19 ts @ ''.'' @ takeWhile is_digit (drop 1 r1) @ [w] @ ''+''
      @ drop 1 (take 5 (drop 1 r2)) @ r3"
    using p1 p2 p3 p4 p5 p6 by (metis append.assoc)
  then show ?thesis
    unfolding pattern_shape_def
    using m(1) m(3) digits sp len m(8) m(9) by blast
qed

lemma strptime_error: "strptime s = Inl e \<Longrightarrow> e = ValueError"
  by (simp add: strptime_def Let_def split: if_splits)

lemma parse_timestamp_error: "parse_timestamp s = Inl e \<Longrightarrow> e = ValueError"
  by (auto simp: parse_timestamp_def Let_def split: option.splits dest: strptime_error)

lemma parse_timestamp_shape:
  "parse_timestamp s = Inr dt \<Longrightarrow> pattern_shape (replace_utc s)"
  by (auto simp: parse_timestamp_def Let_def split: option.splits dest: re_match_shape)

lemma not_spec_shape_without_utc:
  "\<not> spec_shape ''2024-01-02 03:04:05.123456 +0000''"
proof
  assume "spec_shape ''2024-01-02 03:04:05.123456 +0000''"
  then obtain front where "''2024-01-02 03:04:05.123456 +0000'' = front @ '' UTC''"
    unfolding spec_shape_def by (metis append.assoc)
  then have "last ''2024-01-02 03:04:05.123456 +0000'' = last (front @ '' UTC'')"
    by simp
  then show False
    by simp
qed

lemma short_replace:
  "replace_utc ''2024-01-02 03:04:05.123456 +0000 UTC'' = ''2024-01-02 03:04:05.123456 +0000''"
  by (simp add: replace_utc.simps)

lemma plain_replace:
  "replace_utc ''2024-01-02 03:04:05.123456 +0000'' = ''2024-01-02 03:04:05.123456 +0000''"
  by (simp add: replace_utc.simps)

lemma short_match:
  "re_match ''2024-01-02 03:04:05.123456 +0000''
     = Some (''2024-01-02 03:04:05'', ''123456'', ''+0000'')"
  by (simp add: re_match_def date_time_shape_def all_digits_def is_digit_def is_space_def)

lemma no_offset_replace:
  "replace_utc ''2024-01-02 03:04:05.123456 UTC'' = ''2024-01-02 03:04:05.123456''"
  by (simp add: replace_utc.simps)

lemma no_offset_match: "re_match ''2024-01-02 03:04:05.123456'' = None"
  by (simp add: re_match_def date_time_shape_def all_digits_def is_digit_def is_space_def)

text \<open>
  Claim C5, as the specification states it, fails in "every string not of the exact
  shape fails": the \<^verbatim>\<open>UTC\<close> marker is removed when present and not required, so a string
  without it is parsed.
\<close>

theorem parse_timestamp_lenient_counterexample:
  "\<not> spec_shape ''2024-01-02 03:04:05.123456 +0000''
   \<and> parse_timestamp ''2024-01-02 03:04:05.123456 +0000'' =
       Inr \<lparr>year = 2024, month = 1, day = 2, hour = 3, minute = 4, second = 5,
            microsecond = 123456, utcoffset = 0\<rparr>"
  using not_spec_shape_without_utc
  by (simp add: parse_timestamp_def plain_replace short_match sample_strptime)

text \<open>
  Claim C5, amended. The two timestamps with nine and with six fractional digits are
  parsed to the same instant; the timestamp without the \<^verbatim>\<open>+HHMM\<close> offset fails with
  \<^verbatim>\<open>ValueError\<close>; and every string that, once each \<^verbatim>\<open> UTC\<close> is removed, is not of the shape
  \<^verbatim>\<open>YYYY-MM-DD HH:MM:SS.<digits><white space>+HHMM\<close>, with at most a newline after it,
  fails with \<^verbatim>\<open>ValueError\<close>.
\<close>

theorem parse_timestamp_truncates_and_rejects:
  "parse_timestamp ''2024-01-02 03:04:05.123456789 +0000 UTC''
     = parse_timestamp ''2024-01-02 03:04:05.123456 +0000 UTC''
   \<and> parse_timestamp ''2024-01-02 03:04:05.123456 +0000 UTC'' =
       Inr \<lparr>year = 2024, month = 1, day = 2, hour = 3, minute = 4, second = 5,
            microsecond = 123456, utcoffset = 0\<rparr>
   \<and> parse_timestamp ''2024-01-02 03:04:05.123456 UTC'' = Inl ValueError
   \<and> (\<forall>s. \<not> pattern_shape (replace_utc s) \<longrightarrow> parse_timestamp s = Inl ValueError)"
proof -
  have short: "parse_timestamp ''2024-01-02 03:04:05.123456 +0000 UTC'' =
       Inr \<lparr>year = 2024, month = 1, day = 2, hour = 3, minute = 4, second = 5,
            microsecond = 123456, utcoffset = 0\<rparr>"
    by (simp add: parse_timestamp_def short_replace short_match sample_strptime)
  have no_offset: "parse_timestamp ''2024-01-02 03:04:05.123456 UTC'' = Inl ValueError"
    by (simp add: parse_timestamp_def no_offset_replace no_offset_match)
  have rejects: "parse_timestamp s = Inl ValueError" if "\<not> pattern_shape (replace_utc s)" for s
  proof (cases "parse_timestamp s")
    case (Inl e)
    then show ?thesis
      using parse_timestamp_error by blast
  next
    case (Inr dt)
    then show ?thesis
      using that parse_timestamp_shape by blast
  qed
  show ?thesis
    using short no_offset rejects by (simp add: sample_timestamp)
qed

theorem parse_timestamp_truncates_and_rejects_witness:
  "\<not> pattern_shape (replace_utc ''2024-01-02 03:04:05.123456 UTC'')
   \<and> parse_timestamp ''2024-01-02 03:04:05.123456 UTC'' = Inl ValueError"
proof -
  have "\<not> pattern_shape ''2024-01-02 03:04:05.123456''"
  proof
    assume "pattern_shape ''2024-01-02 03:04:05.123456''"
    then obtain d f w z nl where
      eq: "''2024-01-02 03:04:05.123456'' = d @ ''.'' @ f @ [w] @ ''+'' @ z @ nl"
      and d: "date_time_shape d" and f: "all_digits f" and w: "is_space w"
      unfolding pattern_shape_def by blast
    have "length d = 19"
      using d by (simp add: date_time_shape_def)
    then have "d = take 19 ''2024-01-02 03:04:05.123456''"
      using eq by (metis append_eq_conv_conj)
    then have dval: "d = ''2024-01-02 03:04:05''"
      by simp
    have "''123456'' = f @ w # ''+'' @ z @ nl"
      using eq unfolding dval by simp
    then have "w \<in> set ''123456''"
      by (metis in_set_conv_decomp)
    then show False
      using w by (auto simp: is_space_def)
  qed
  then show ?thesis
    using parse_timestamp_truncates_and_rejects by (simp add: no_offset_replace)
qed

end
